theory Spec2Isabelle
  imports Main "HOL-Library.AList"
begin

section \<open>Python strings and the \<open>posixpath\<close> functions used by \<open>builder/core/env.py\<close>\<close>

text \<open>
  Strings are \<open>string\<close>; a character is read as a code point below 256. The host is
  POSIX: \<open>os.path.sep\<close> is \<open>/\<close> and \<open>os.path\<close> is \<open>posixpath\<close>. The functions below
  follow CPython's \<open>str\<close> methods and \<open>posixpath.py\<close>.
\<close>

definition startswith :: "string \<Rightarrow> string \<Rightarrow> bool" where
  "startswith s p = (take (length p) s = p)"

text \<open>\<open>s.split(c)\<close> for a one-character separator: never the empty list.\<close>

fun str_split :: "char \<Rightarrow> string \<Rightarrow> string list" where
  "str_split c [] = [[]]"
| "str_split c (x # xs) =
     (if x = c then [] # str_split c xs
      else (case str_split c xs of [] \<Rightarrow> [[x]] | y # ys \<Rightarrow> (x # y) # ys))"

text \<open>\<open>sep.join(xs)\<close>.\<close>

fun str_join :: "string \<Rightarrow> string list \<Rightarrow> string" where
  "str_join sep [] = []"
| "str_join sep [x] = x"
| "str_join sep (x # y # ys) = x @ sep @ str_join sep (y # ys)"

text \<open>\<open>s.strip(chars)\<close>, the set of characters given as a predicate.\<close>

definition str_strip :: "(char \<Rightarrow> bool) \<Rightarrow> string \<Rightarrow> string" where
  "str_strip P s = rev (dropWhile P (rev (dropWhile P s)))"

text \<open>The characters \<open>str.strip()\<close> removes, among the code points below 256.\<close>

definition py_isspace :: "char \<Rightarrow> bool" where
  "py_isspace c = (of_char c \<in> {9, 10, 11, 12, 13, 28, 29, 30, 31, 32, 133, 160 :: nat})"

text \<open>Truthiness of a value that is \<open>None\<close> or a \<open>str\<close>.\<close>

fun truthy :: "string option \<Rightarrow> bool" where
  "truthy None = False"
| "truthy (Some s) = (s \<noteq> [])"

text \<open>\<open>posixpath.isabs\<close>.\<close>

definition os_path_isabs :: "string \<Rightarrow> bool" where
  "os_path_isabs s = startswith s ''/''"

text \<open>One round of the loop of \<open>posixpath.join(a, *p)\<close>, and the loop.\<close>

definition join_step :: "string \<Rightarrow> string \<Rightarrow> string" where
  "join_step path b =
     (if startswith b ''/'' then b
      else if path = [] \<or> last path = CHR ''/'' then path @ b
      else path @ ''/'' @ b)"

definition os_path_join :: "string \<Rightarrow> string list \<Rightarrow> string" where
  "os_path_join a p = foldl join_step a p"

text \<open>One round of the loop over \<open>comps\<close> in \<open>posixpath.normpath\<close>, and \<open>normpath\<close>.\<close>

definition norm_step :: "nat \<Rightarrow> string list \<Rightarrow> string \<Rightarrow> string list" where
  "norm_step initial_slashes new_comps cmp =
     (if cmp = [] \<or> cmp = ''.'' then new_comps
      else if cmp \<noteq> ''..'' \<or> (initial_slashes = 0 \<and> new_comps = [])
              \<or> (new_comps \<noteq> [] \<and> last new_comps = ''..'')
      then new_comps @ [cmp]
      else if new_comps \<noteq> [] then butlast new_comps
      else new_comps)"

definition os_path_normpath :: "string \<Rightarrow> string" where
  "os_path_normpath path =
     (if path = [] then ''.''
      else
        let initial_slashes =
              (if startswith path ''/''
               then (if startswith path ''//'' \<and> \<not> startswith path ''///'' then 2 else 1)
               else (0::nat));
            comps = foldl (norm_step initial_slashes) [] (str_split CHR ''/'' path);
            path' = replicate initial_slashes CHR ''/'' @ str_join ''/'' comps
        in if path' = [] then ''.'' else path')"

text \<open>\<open>posixpath.abspath\<close>; the first argument is what \<open>os.getcwd()\<close> returns at the call.\<close>

definition os_path_abspath :: "string \<Rightarrow> string \<Rightarrow> string" where
  "os_path_abspath cwd path =
     os_path_normpath (if \<not> os_path_isabs path then os_path_join cwd [path] else path)"

section \<open>The objects of \<open>env.py\<close>\<close>

text \<open>
  A \<open>Project\<close> as \<open>Env.__init__\<close> sees it: the attributes \<open>name\<close> and \<open>path\<close> (\<open>None\<close>
  or a string) and the answer of \<open>resolved()\<close>. The class itself is
  \<open>builder.core.project\<close>, outside this file, so the three are independent. A
  \<open>Project\<close> object has no truth value of its own: \<open>not self.project\<close> holds for
  \<open>None\<close> only.
\<close>

record project =
  p_name :: string
  p_path :: "string option"
  p_resolved :: bool

text \<open>The parsed arguments: an attribute that the object does not have is \<open>None\<close>.\<close>

record args =
  args_project :: "string option option"
  args_cli_config :: "(string \<times> string) list option"

datatype shell = Shell bool

text \<open>
  The errors \<open>Env.__init__\<close> and \<open>_get_git_branch\<close> can end with.
  \<open>FileNotFoundError\<close> is what \<open>os.getcwd()\<close> raises when the working directory is
  gone. \<open>CollaboratorError\<close> is an exception raised by \<open>DownloadSource.run\<close>.
  \<open>ConfigurationError\<close> is the class the specification names; no statement of
  \<open>env.py\<close> raises it.
\<close>

datatype error =
    AttributeError string
  | AssertionError
  | TypeError
  | FileNotFoundError
  | CollaboratorError string
  | ConfigurationError

text \<open>The calls \<open>Env.__init__\<close> makes on its collaborators, in the order it makes them.\<close>

datatype event =
    ShellNew bool
  | ShellCwd
  | SetSearchDirs "string list"
  | DefaultProject
  | FindProject string "string list"
  | Download project string string
  | UseVariant "string option"
  | GetConfig string "(string \<times> string) list"
  | Publish string string
  | ShellCd string
  | AddPathEnv string string
  | ExtendSearchDirs "string list"
  | ShellRm string
  | ShellMkdir string

text \<open>
  What the process and the collaborators answer. An answer that can change while the
  constructor runs is a function of the calls made so far. \<open>check_output\<close> is
  \<open>subprocess.check_output(["git", "branch", "-a", "--contains", "HEAD"]).decode("utf-8")\<close>,
  \<open>None\<close> when either call raises; \<open>DownloadSource_run\<close> answers \<open>None\<close> when it
  returns and the message of its exception otherwise.
\<close>

record world =
  os_environ :: "string \<Rightarrow> string option"
  check_output :: "string option"
  sys_platform :: string
  os_getcwd :: "event list \<Rightarrow> string"
  os_path_exists :: "event list \<Rightarrow> string \<Rightarrow> bool"
  Shell_cwd :: "event list \<Rightarrow> string"
  Project_default_project :: "event list \<Rightarrow> project option"
  Project_find_project :: "event list \<Rightarrow> string \<Rightarrow> string list \<Rightarrow> project"
  DownloadSource_run :: "event list \<Rightarrow> project \<Rightarrow> string \<Rightarrow> string \<Rightarrow> string option"
  Project_get_config ::
    "event list \<Rightarrow> project \<Rightarrow> string \<Rightarrow> (string \<times> string) list \<Rightarrow> (string \<times> string) list"

section \<open>\<open>Env._get_git_branch\<close>\<close>

text \<open>\<open>branch.strip('*').strip()\<close>.\<close>

definition strip_branch :: "string \<Rightarrow> string" where
  "strip_branch branch = str_strip py_isspace (str_strip (\<lambda>c. c = CHR ''*'') branch)"

text \<open>The first loop of the \<open>try\<close> block: the value of \<open>star_branch\<close> after it.\<close>

fun find_star_branch :: "string list \<Rightarrow> string option" where
  "find_star_branch [] = None"
| "find_star_branch (branch # rest) =
     (if branch \<noteq> [] \<and> startswith branch ''*''
      then (let star_branch = strip_branch branch
            in if star_branch = ''(no branch)'' then None else Some star_branch)
      else find_star_branch rest)"

text \<open>The last loop of the \<open>try\<close> block: \<open>None\<close> when it ends without a \<open>return\<close>.\<close>

fun first_branch :: "string list \<Rightarrow> string option" where
  "first_branch [] = None"
| "first_branch (branch # rest) =
     (if branch = ''(no branch)'' then first_branch rest
      else if startswith branch ''remotes/origin/''
      then Some (drop (length ''remotes/origin/'') branch)
      else Some branch)"

text \<open>
  The body of the \<open>try\<close> block once \<open>check_output\<close> and \<open>decode\<close> have returned (lines
  156 to 184): \<open>Some\<close> branch when a \<open>return\<close> is reached, \<open>None\<close> when the loops end
  without one.
\<close>

definition git_probe :: "string \<Rightarrow> string option" where
  "git_probe branches =
     (let star_branch = find_star_branch (str_split CHR ''\<newline>'' branches);
          branches' = map strip_branch (filter (\<lambda>branch. branch \<noteq> []) (str_split CHR ''\<newline>'' branches))
      in if truthy star_branch then star_branch else first_branch branches')"

text \<open>
  Lines 153 to 189: the \<open>try\<close> statement and the last \<open>return\<close>. \<open>out\<close> is \<open>None\<close> when
  \<open>check_output\<close> or \<open>decode\<close> raises. The bare \<open>except:\<close> catches that exception, and
  its handler evaluates \<open>os.getcwd()\<close>, the argument of \<open>format\<close>: \<open>cwd\<close> is what that
  call returns, \<open>None\<close> when it raises \<open>FileNotFoundError\<close> (the working directory is
  gone). Nothing catches an exception raised in the handler. The calls of \<open>print\<close> are
  left out, here and in the constructor.
\<close>

definition probe_or_main :: "string option \<Rightarrow> string option \<Rightarrow> error + string" where
  "probe_or_main out cwd =
     (case out of
        None \<Rightarrow> (case cwd of None \<Rightarrow> Inl FileNotFoundError | Some d \<Rightarrow> Inr ''main'')
      | Some branches \<Rightarrow>
          (case git_probe branches of Some branch \<Rightarrow> Inr branch | None \<Rightarrow> Inr ''main''))"

text \<open>
  \<open>_get_git_branch\<close>, given \<open>os.environ\<close>, the outcome of the probe and the outcome of
  \<open>os.getcwd()\<close> in the handler.
\<close>

definition Env_get_git_branch ::
  "(string \<Rightarrow> string option) \<Rightarrow> string option \<Rightarrow> string option \<Rightarrow> error + string" where
  "Env_get_git_branch environ out cwd =
     (let travis_pr_branch = environ ''TRAVIS_PULL_REQUEST_BRANCH''
      in if truthy travis_pr_branch then Inr (the travis_pr_branch)
      else
        let github_head_ref = environ ''GITHUB_HEAD_REF'';
            github_ref = environ ''GITHUB_REF''
        in if truthy github_head_ref then Inr (the github_head_ref)
        else if truthy github_ref \<and> startswith (the github_ref) ''refs/heads/''
        then Inr (drop (length ''refs/heads/'') (the github_ref))
        else probe_or_main out cwd)"

text \<open>
  The call of line 36. A \<open>world\<close> is a host on which \<open>os.getcwd()\<close> returns, in
  \<open>abspath\<close> and in the handler alike (what it returns is \<open>os_getcwd\<close>), so the call
  returns a branch and the \<open>Inl\<close> case below is never taken.
\<close>

definition get_git_branch :: "world \<Rightarrow> string" where
  "get_git_branch w =
     (case Env_get_git_branch (os_environ w) (check_output w) (Some (os_getcwd w [])) of
        Inr branch \<Rightarrow> branch
      | Inl err \<Rightarrow> ''main'')"

section \<open>\<open>Env.__init__\<close>\<close>

text \<open>
  The incoming \<open>config\<close> dictionary, by the attributes the constructor reads after
  \<open>setattr\<close> has copied every key onto the object; a key the dictionary does not have
  is \<open>None\<close>. \<open>config=None\<close> and \<open>{}\<close> are the record of \<open>None\<close>s. A \<open>branch\<close> key
  holding \<open>None\<close> and no \<open>branch\<close> key are the same to \<open>getattr(self, 'branch', None)\<close>;
  \<open>variant\<close> may be present and hold \<open>None\<close>.
\<close>

record overrides =
  cfg_dryrun :: "bool option"
  cfg_branch :: "string option"
  cfg_shell :: "shell option"
  cfg_project :: "project option"
  cfg_args :: "args option"
  cfg_variant :: "string option option"
  cfg_spec :: "string option"

text \<open>
  The attributes of the \<open>Env\<close> object. Those assigned after the early \<open>return\<close> of the
  constructor, and those only the configuration supplies, are \<open>None\<close> while the object
  does not have them. \<open>variables\<close> is the \<open>Variables\<close> dictionary, in insertion order.
\<close>

record env =
  dryrun :: bool
  variables :: "(string \<times> string) list"
  branch :: string
  shell :: shell
  launch_dir :: string
  project :: "project option"
  args :: "args option"
  variant :: "string option option"
  spec :: "string option"
  config :: "(string \<times> string) list option"
  root_dir :: "string option"
  build_dir :: "string option"
  deps_dir :: "string option"
  install_dir :: "string option"

text \<open>The object under construction and the calls made so far.\<close>

type_synonym state = "env \<times> event list"

text \<open>What the constructor ends with (the exception, or the object) and the calls it made.\<close>

type_synonym outcome = "(error + env) \<times> event list"

text \<open>A call on a collaborator, after which the constructor goes on.\<close>

definition emit :: "event \<Rightarrow> state \<Rightarrow> state" where
  "emit ev s = (fst s, snd s @ [ev])"

text \<open>
  \<open>Variables.__setitem__\<close>: \<open>super().__setitem__(item, value)\<close>, then
  \<open>env._publish_variable(item, value)\<close>, which is \<open>Project._publish_variable(var, value)\<close>.
\<close>

definition Variables_setitem :: "string \<Rightarrow> string \<Rightarrow> state \<Rightarrow> state" where
  "Variables_setitem item val s =
     emit (Publish item val) (fst s\<lparr>variables := AList.update item val (variables (fst s))\<rparr>, snd s)"

text \<open>\<open>config.get(key, default)\<close>.\<close>

definition dict_get :: "(string \<times> string) list \<Rightarrow> string \<Rightarrow> string \<Rightarrow> string" where
  "dict_get d key dflt = (case map_of d key of None \<Rightarrow> dflt | Some v \<Rightarrow> v)"

text \<open>Lines 16 to 52: defaults, overrides, branch, shell, launch directory, default project.\<close>

definition Env_setup :: "world \<Rightarrow> overrides \<Rightarrow> state" where
  "Env_setup w cfg =
     (let dryrun' = (case cfg_dryrun cfg of None \<Rightarrow> False | Some b \<Rightarrow> b);
          branch' = (if truthy (cfg_branch cfg) then the (cfg_branch cfg) else get_git_branch w);
          tr1 = (case cfg_shell cfg of None \<Rightarrow> [ShellNew dryrun'] | Some sh \<Rightarrow> []);
          shell' = (case cfg_shell cfg of None \<Rightarrow> Shell dryrun' | Some sh \<Rightarrow> sh);
          tr2 = tr1 @ [ShellCwd];
          launch_dir' = os_path_abspath (os_getcwd w tr2) (Shell_cwd w tr1);
          tr3 = tr2 @ [SetSearchDirs [launch_dir']];
          tr4 = (case cfg_project cfg of None \<Rightarrow> tr3 @ [DefaultProject] | Some p \<Rightarrow> tr3);
          project' = (case cfg_project cfg of None \<Rightarrow> Project_default_project w tr3 | Some p \<Rightarrow> Some p)
      in (\<lparr>dryrun = dryrun', variables = [], branch = branch', shell = shell',
           launch_dir = launch_dir', project = project', args = cfg_args cfg,
           variant = cfg_variant cfg, spec = cfg_spec cfg, config = None, root_dir = None,
           build_dir = None, deps_dir = None, install_dir = None\<rparr>, tr4))"

text \<open>Lines 59 to 64: the hints and the bare name of a requested project.\<close>

definition project_hints :: "string \<Rightarrow> string \<Rightarrow> string list" where
  "project_hints cwd project_name =
     (let parts = str_split CHR ''/'' project_name
      in if length parts > 1 then [os_path_abspath cwd (os_path_join (hd parts) (tl parts))] else [])"

definition project_bare_name :: "string \<Rightarrow> string" where
  "project_bare_name project_name = last (str_split CHR ''/'' project_name)"

text \<open>
  Lines 68 to 77: the lookup, the download when it gave a reference, the second lookup.
  The \<open>assert\<close> of line 75 is checked (the interpreter runs without \<open>-O\<close>).
\<close>

definition Env_find :: "world \<Rightarrow> string \<Rightarrow> state \<Rightarrow> outcome" where
  "Env_find w project_name s =
     (let hints = project_hints (os_getcwd w (snd s)) project_name;
          name = project_bare_name project_name;
          found = Project_find_project w (snd s) name hints;
          s1 = emit (FindProject name hints) s
      in if \<not> truthy (p_path found)
         then
           (let s2 = emit (Download found (branch (fst s)) ''.'') s1
            in case DownloadSource_run w (snd s1) found (branch (fst s)) ''.'' of
                 Some msg \<Rightarrow> (Inl (CollaboratorError msg), snd s2)
               | None \<Rightarrow>
                   (let hint = os_path_abspath (os_getcwd w (snd s2)) ''.'';
                        found' = Project_find_project w (snd s2) (p_name found) [hint];
                        s3 = emit (FindProject (p_name found) [hint]) s2
                    in if p_resolved found'
                       then (Inr (fst s3\<lparr>project := Some found'\<rparr>), snd s3)
                       else (Inl AssertionError, snd s3)))
         else (Inr (fst s1\<lparr>project := Some found\<rparr>), snd s1))"

text \<open>Lines 55 to 77: \<open>if self.args.project:\<close> and its body.\<close>

definition Env_locate :: "world \<Rightarrow> state \<Rightarrow> outcome" where
  "Env_locate w s =
     (case args (fst s) of
        None \<Rightarrow> (Inl (AttributeError ''args''), snd s)
      | Some a \<Rightarrow>
          (case args_project a of
             None \<Rightarrow> (Inl (AttributeError ''project''), snd s)
           | Some requested \<Rightarrow>
               if truthy requested then Env_find w (the requested) s
               else (Inr (fst s), snd s)))"

text \<open>Lines 87 to 123: the directories, their variables, the search scope, the build directory.\<close>

definition Env_layout :: "world \<Rightarrow> string \<Rightarrow> (string \<times> string) list \<Rightarrow> state \<Rightarrow> state" where
  "Env_layout w path cfg s0 =
     (let root = os_path_abspath (os_getcwd w (snd s0)) path;
          s1 = Variables_setitem ''root_dir'' root (fst s0\<lparr>root_dir := Some root\<rparr>, snd s0);
          s2 = emit (ShellCd root) s1;
          build = os_path_abspath (os_getcwd w (snd s2))
                    (dict_get cfg ''build_dir'' (os_path_join root [''build'']));
          s3 = Variables_setitem ''build_dir'' build (fst s2\<lparr>build_dir := Some build\<rparr>, snd s2);
          deps = os_path_abspath (os_getcwd w (snd s3))
                   (dict_get cfg ''deps_dir'' (os_path_join build [''deps'']));
          s4 = Variables_setitem ''deps_dir'' deps (fst s3\<lparr>deps_dir := Some deps\<rparr>, snd s3);
          install = os_path_abspath (os_getcwd w (snd s4))
                      (dict_get cfg ''install_dir'' (os_path_join build [''install'']));
          s5 = Variables_setitem ''install_dir'' install (fst s4\<lparr>install_dir := Some install\<rparr>, snd s4);
          s6 = (if sys_platform w = ''win32''
                then emit (AddPathEnv ''PATH''
                       (os_path_abspath (os_getcwd w (snd s5)) (os_path_join install [''bin'']))) s5
                else
                  (let s5' = emit (AddPathEnv ''LD_LIBRARY_PATH''
                               (os_path_abspath (os_getcwd w (snd s5)) (os_path_join install [''lib64'']))) s5
                   in emit (AddPathEnv ''LD_LIBRARY_PATH''
                        (os_path_abspath (os_getcwd w (snd s5')) (os_path_join install [''lib'']))) s5'));
          s7 = emit (ExtendSearchDirs [build, root, deps]) s6;
          s8 = (if os_path_exists w (snd s7) build then emit (ShellRm build) s7 else s7)
      in emit (ShellMkdir build) s8)"

text \<open>
  Lines 83 to 123, for the resolved project \<open>p\<close>. In line 84 \<open>self.spec\<close> is read before
  \<open>self.args.cli_config\<close>; \<open>os.path.abspath(None)\<close> in line 87 is a \<open>TypeError\<close>.
\<close>

definition Env_configure :: "world \<Rightarrow> project \<Rightarrow> state \<Rightarrow> outcome" where
  "Env_configure w p s =
     (case variant (fst s) of
        None \<Rightarrow> (Inl (AttributeError ''variant''), snd s)
      | Some v \<Rightarrow>
          (let s1 = emit (UseVariant v) s
           in case spec (fst s) of
                None \<Rightarrow> (Inl (AttributeError ''spec''), snd s1)
              | Some sp \<Rightarrow>
                  (case args (fst s) of
                     None \<Rightarrow> (Inl (AttributeError ''args''), snd s1)
                   | Some a \<Rightarrow>
                       (case args_cli_config a of
                          None \<Rightarrow> (Inl (AttributeError ''cli_config''), snd s1)
                        | Some cli \<Rightarrow>
                            (let cfg = Project_get_config w (snd s1) p sp cli;
                                 s2 = emit (GetConfig sp cli) (fst s1\<lparr>config := Some cfg\<rparr>, snd s1)
                             in case p_path p of
                                  None \<Rightarrow> (Inl TypeError, snd s2)
                                | Some path \<Rightarrow>
                                    (let s3 = Env_layout w path cfg s2
                                     in (Inr (fst s3), snd s3)))))))"

text \<open>Line 79: \<open>not self.project or not self.project.resolved()\<close>.\<close>

definition nothing_to_build :: "env \<Rightarrow> bool" where
  "nothing_to_build e = (case project e of None \<Rightarrow> True | Some p \<Rightarrow> \<not> p_resolved p)"

text \<open>The constructor.\<close>

definition Env_init :: "world \<Rightarrow> overrides \<Rightarrow> outcome" where
  "Env_init w cfg =
     (case Env_locate w (Env_setup w cfg) of
        (Inl err, tr) \<Rightarrow> (Inl err, tr)
      | (Inr e, tr) \<Rightarrow>
          if nothing_to_build e then (Inr e, tr)
          else Env_configure w (the (project e)) (e, tr))"

section \<open>Observing the calls\<close>

text \<open>Calls of the publication hook.\<close>

fun is_publish :: "event \<Rightarrow> bool" where
  "is_publish (Publish k v) = True"
| "is_publish ev = False"

text \<open>Calls that remove or create a directory.\<close>

fun is_build_dir_op :: "event \<Rightarrow> bool" where
  "is_build_dir_op (ShellRm d) = True"
| "is_build_dir_op (ShellMkdir d) = True"
| "is_build_dir_op ev = False"

text \<open>Calls that look a project up or fetch one.\<close>

fun is_lookup :: "event \<Rightarrow> bool" where
  "is_lookup DefaultProject = True"
| "is_lookup (FindProject n h) = True"
| "is_lookup (Download p b d) = True"
| "is_lookup ev = False"

text \<open>Calls that only the statements after line 80 make.\<close>

fun after_resolution :: "event \<Rightarrow> bool" where
  "after_resolution (ShellNew b) = False"
| "after_resolution ShellCwd = False"
| "after_resolution (SetSearchDirs ds) = False"
| "after_resolution DefaultProject = False"
| "after_resolution (FindProject n h) = False"
| "after_resolution (Download p b d) = False"
| "after_resolution ev = True"

text \<open>Lines 16 to 77: the constructor up to the test of line 79.\<close>

definition resolution :: "world \<Rightarrow> overrides \<Rightarrow> outcome" where
  "resolution w cfg = Env_locate w (Env_setup w cfg)"

text \<open>A path component that \<open>normpath\<close> keeps as it is.\<close>

definition plain :: "string \<Rightarrow> bool" where
  "plain c = (c \<noteq> [] \<and> c \<noteq> ''.'' \<and> c \<noteq> ''..'' \<and> CHR ''/'' \<notin> set c)"

section \<open>Concrete runs\<close>

text \<open>
  A host whose working directory is \<open>/work\<close> until \<open>shell.cd\<close> changes it, with no CI
  variable and no \<open>git\<close>, where a project is found only once it has been downloaded.
\<close>

fun cwd_after :: "string \<Rightarrow> event list \<Rightarrow> string" where
  "cwd_after cwd [] = cwd"
| "cwd_after cwd (ShellCd d # tr) = cwd_after (os_path_abspath cwd d) tr"
| "cwd_after cwd (ev # tr) = cwd_after cwd tr"

fun downloaded :: "event list \<Rightarrow> bool" where
  "downloaded [] = False"
| "downloaded (Download p b d # tr) = True"
| "downloaded (ev # tr) = downloaded tr"

definition demo_world :: world where
  "demo_world =
     \<lparr>os_environ = (\<lambda>k. None), check_output = None, sys_platform = ''linux'',
      os_getcwd = cwd_after ''/work'', os_path_exists = (\<lambda>tr p. True),
      Shell_cwd = cwd_after ''/work'',
      Project_default_project = (\<lambda>tr. None),
      Project_find_project = (\<lambda>tr name hints.
         if downloaded tr then \<lparr>p_name = name, p_path = Some name, p_resolved = True\<rparr>
         else \<lparr>p_name = name, p_path = None, p_resolved = False\<rparr>),
      DownloadSource_run = (\<lambda>tr p b d. None),
      Project_get_config = (\<lambda>tr p sp cli. [])\<rparr>"

text \<open>The same host with CI variables and an output of \<open>git branch\<close>.\<close>

definition ci_world :: "(string \<times> string) list \<Rightarrow> string option \<Rightarrow> world" where
  "ci_world vars out = demo_world\<lparr>os_environ := map_of vars, check_output := out\<rparr>"

text \<open>A configuration that supplies \<open>args\<close>, \<open>variant\<close> and \<open>spec\<close>, with \<open>args.project\<close> as given.\<close>

definition request :: "string option \<Rightarrow> overrides" where
  "request name =
     \<lparr>cfg_dryrun = None, cfg_branch = None, cfg_shell = None, cfg_project = None,
      cfg_args = Some \<lparr>args_project = Some name, args_cli_config = Some []\<rparr>,
      cfg_variant = Some None, cfg_spec = Some ''spec''\<rparr>"

text \<open>
  Hosts that differ from the demo host in the lookup only: one where no lookup ever finds
  the project, whatever was downloaded, and one where every lookup finds it on disk.
  Then a project object for the \<open>project\<close> key, and the empty configuration.
\<close>

definition stuck_world :: world where
  "stuck_world = demo_world\<lparr>Project_find_project :=
     (\<lambda>tr name hints. \<lparr>p_name = name, p_path = None, p_resolved = False\<rparr>)\<rparr>"

definition local_world :: world where
  "local_world = demo_world\<lparr>Project_find_project :=
     (\<lambda>tr name hints. \<lparr>p_name = name, p_path = Some name, p_resolved = True\<rparr>)\<rparr>"

definition given_project :: project where
  "given_project = \<lparr>p_name = ''given'', p_path = Some ''given'', p_resolved = True\<rparr>"


section \<open>The variable store\<close>

text \<open>
  C9. An insertion \<open>variables[item] = val\<close> stores the pair, and makes exactly one call of
  the publication hook, with the same key and value: the calls after the insertion are
  the calls before it followed by that one call.
\<close>

theorem Variables_setitem_publishes:
  "map_of (variables (fst (Variables_setitem item val s))) item = Some val
   \<and> snd (Variables_setitem item val s) = snd s @ [Publish item val]
   \<and> filter is_publish (snd (Variables_setitem item val s))
       = filter is_publish (snd s) @ [Publish item val]"
  by (simp add: Variables_setitem_def emit_def update_conv')

section \<open>Branch detection\<close>

lemma find_star_branch_Some:
  "find_star_branch ls = Some s \<Longrightarrow>
     \<exists>l \<in> set ls. l \<noteq> [] \<and> strip_branch l = s \<and> s \<noteq> ''(no branch)''"
  by (induction ls) (auto simp add: Let_def split: if_splits)

lemma first_branch_None:
  "(first_branch bs = None) = (\<forall>b \<in> set bs. b = ''(no branch)'')"
  by (induction bs) auto

text \<open>
  The body of the \<open>try\<close> block returns no branch exactly when every non-empty line of
  the output is \<open>(no branch)\<close> once stripped.
\<close>

lemma git_probe_None:
  "(git_probe branches = None) =
     (\<forall>l \<in> set (str_split CHR ''\<newline>'' branches). l \<noteq> [] \<longrightarrow> strip_branch l = ''(no branch)'')"
proof -
  let ?ls = "str_split CHR ''\<newline>'' branches"
  show ?thesis
  proof (cases "truthy (find_star_branch ?ls)")
    case True
    then obtain s where s: "find_star_branch ?ls = Some s" by (cases "find_star_branch ?ls") auto
    from find_star_branch_Some [OF s] have "\<not> (\<forall>l \<in> set ?ls. l \<noteq> [] \<longrightarrow> strip_branch l = ''(no branch)'')"
      by auto
    with True s show ?thesis by (simp add: git_probe_def Let_def)
  next
    case False
    then show ?thesis
      by (auto simp add: git_probe_def Let_def first_branch_None)
  qed
qed

text \<open>Where \<open>os.getcwd()\<close> returns, \<open>_get_git_branch\<close> returns a branch.\<close>

lemma Env_get_git_branch_returns:
  "\<exists>branch. Env_get_git_branch environ out (Some d) = Inr branch"
  by (simp add: Env_get_git_branch_def probe_or_main_def Let_def split: option.splits)

lemma get_git_branch_returns:
  "Env_get_git_branch (os_environ w) (check_output w) (Some (os_getcwd w [])) = Inr (get_git_branch w)"
proof -
  obtain branch where
    "Env_get_git_branch (os_environ w) (check_output w) (Some (os_getcwd w [])) = Inr branch"
    using Env_get_git_branch_returns by blast
  then show ?thesis by (simp add: get_git_branch_def)
qed

text \<open>
  The part of C5 that the code keeps. With the three CI variables unset (or empty): a
  probe that raises ends in \<open>main\<close> when \<open>os.getcwd()\<close> returns in the handler, and an
  output in which no loop finds a branch ends in \<open>main\<close> whatever \<open>os.getcwd()\<close> does.
\<close>

lemma Env_get_git_branch_fallback:
  assumes "\<not> truthy (environ ''TRAVIS_PULL_REQUEST_BRANCH'')"
    and "\<not> truthy (environ ''GITHUB_HEAD_REF'')"
    and "\<not> truthy (environ ''GITHUB_REF'')"
  shows "Env_get_git_branch environ None (Some d) = Inr ''main''
       \<and> (git_probe branches = None \<longrightarrow> Env_get_git_branch environ (Some branches) cwd = Inr ''main'')"
  using assms by (simp add: Env_get_git_branch_def probe_or_main_def Let_def)

text \<open>
  C5 fails on the code. With no CI variable set, a probe that raises and a working
  directory that is gone, the handler of the bare \<open>except:\<close> evaluates \<open>os.getcwd()\<close> for
  its message (line 186); the \<open>FileNotFoundError\<close> of that call leaves
  \<open>_get_git_branch\<close>, and \<open>main\<close> is not returned.
\<close>

theorem get_git_branch_handler_raises:
  "Env_get_git_branch (\<lambda>k. None) None None = Inl FileNotFoundError
   \<and> Env_get_git_branch (\<lambda>k. None) None None \<noteq> Inr ''main''"
  by (simp add: Env_get_git_branch_def probe_or_main_def)

text \<open>
  C4, as the code has it. A signal counts when it is set to a non-empty string
  (\<open>if travis_pr_branch:\<close>). Then: the pull-request branch is returned as it is; else
  the head ref is returned as it is; else a ref that starts with \<open>refs/heads/\<close> is
  returned without that prefix; a ref without the prefix leaves the answer to the
  \<open>try\<close> statement and the final \<open>return 'main'\<close>.
\<close>

theorem get_git_branch_priority:
  "(os_environ w ''TRAVIS_PULL_REQUEST_BRANCH'' = Some t \<and> t \<noteq> [] \<longrightarrow> get_git_branch w = t)
 \<and> (\<not> truthy (os_environ w ''TRAVIS_PULL_REQUEST_BRANCH'')
      \<and> os_environ w ''GITHUB_HEAD_REF'' = Some h \<and> h \<noteq> [] \<longrightarrow> get_git_branch w = h)
 \<and> (\<not> truthy (os_environ w ''TRAVIS_PULL_REQUEST_BRANCH'')
      \<and> \<not> truthy (os_environ w ''GITHUB_HEAD_REF'')
      \<and> os_environ w ''GITHUB_REF'' = Some (''refs/heads/'' @ r) \<longrightarrow> get_git_branch w = r)
 \<and> (\<not> truthy (os_environ w ''TRAVIS_PULL_REQUEST_BRANCH'')
      \<and> \<not> truthy (os_environ w ''GITHUB_HEAD_REF'')
      \<and> os_environ w ''GITHUB_REF'' = Some g \<and> \<not> startswith g ''refs/heads/''
      \<longrightarrow> get_git_branch w =
           (case check_output w of
              None \<Rightarrow> ''main''
            | Some branches \<Rightarrow> (case git_probe branches of Some b \<Rightarrow> b | None \<Rightarrow> ''main'')))"
  by (simp add: get_git_branch_def Env_get_git_branch_def probe_or_main_def Let_def startswith_def
      split: option.splits)

theorem get_git_branch_priority_witness:
  "get_git_branch (ci_world [(''TRAVIS_PULL_REQUEST_BRANCH'', ''feature-x''),
       (''GITHUB_HEAD_REF'', ''other''), (''GITHUB_REF'', ''refs/heads/main'')]
       (Some ''* local\<newline>'')) = ''feature-x''
 \<and> get_git_branch (ci_world [(''GITHUB_HEAD_REF'', ''pr-source''),
       (''GITHUB_REF'', ''refs/pull/7/merge'')] (Some ''* local\<newline>'')) = ''pr-source''
 \<and> get_git_branch (ci_world [(''GITHUB_REF'', ''refs/heads/main'')] (Some ''* local\<newline>'')) = ''main''
 \<and> get_git_branch (ci_world [(''GITHUB_REF'', ''refs/tags/v1'')] (Some ''* local\<newline>'')) = ''local''"
proof -
  let ?out = "Some ''* local\<newline>''"
  let ?w1 = "ci_world [(''TRAVIS_PULL_REQUEST_BRANCH'', ''feature-x''),
       (''GITHUB_HEAD_REF'', ''other''), (''GITHUB_REF'', ''refs/heads/main'')] ?out"
  let ?w2 = "ci_world [(''GITHUB_HEAD_REF'', ''pr-source''), (''GITHUB_REF'', ''refs/pull/7/merge'')] ?out"
  let ?w3 = "ci_world [(''GITHUB_REF'', ''refs/heads/main'')] ?out"
  let ?w4 = "ci_world [(''GITHUB_REF'', ''refs/tags/v1'')] ?out"
  have p: "git_probe ''* local\<newline>'' = Some ''local''"
    by (simp add: git_probe_def startswith_def strip_branch_def str_strip_def py_isspace_def)
  have 1: "get_git_branch ?w1 = ''feature-x''"
    using get_git_branch_priority [of ?w1 "''feature-x''"]
    by (simp add: ci_world_def demo_world_def)
  have 2: "get_git_branch ?w2 = ''pr-source''"
    using get_git_branch_priority [of ?w2 _ "''pr-source''"]
    by (simp add: ci_world_def demo_world_def)
  have 3: "get_git_branch ?w3 = ''main''"
    using get_git_branch_priority [of ?w3 _ _ "''main''"]
    by (simp add: ci_world_def demo_world_def)
  have 4: "get_git_branch ?w4 = ''local''"
    using get_git_branch_priority [of ?w4 _ _ _ "''refs/tags/v1''"] p
    by (simp add: ci_world_def demo_world_def startswith_def)
  from 1 2 3 4 show ?thesis by simp
qed

text \<open>
  C4 as stated fails where the pull-request variable is set to the empty string, as it is
  on a push build: the head ref is returned, not the variable's value.
\<close>

theorem get_git_branch_empty_signal:
  "os_environ (ci_world [(''TRAVIS_PULL_REQUEST_BRANCH'', ''''), (''GITHUB_HEAD_REF'', ''pr-source'')] None)
     ''TRAVIS_PULL_REQUEST_BRANCH'' = Some ''''
   \<and> get_git_branch (ci_world [(''TRAVIS_PULL_REQUEST_BRANCH'', ''''), (''GITHUB_HEAD_REF'', ''pr-source'')] None)
       = ''pr-source''
   \<and> get_git_branch (ci_world [(''TRAVIS_PULL_REQUEST_BRANCH'', ''''), (''GITHUB_HEAD_REF'', ''pr-source'')] None)
       \<noteq> ''''"
  by (simp add: get_git_branch_def Env_get_git_branch_def ci_world_def demo_world_def)

section \<open>Project resolution\<close>

lemma Env_setup_attrs:
  "args (fst (Env_setup w cfg)) = cfg_args cfg"
  "variant (fst (Env_setup w cfg)) = cfg_variant cfg"
  "spec (fst (Env_setup w cfg)) = cfg_spec cfg"
  "config (fst (Env_setup w cfg)) = None"
  "root_dir (fst (Env_setup w cfg)) = None"
  "build_dir (fst (Env_setup w cfg)) = None"
  "deps_dir (fst (Env_setup w cfg)) = None"
  "install_dir (fst (Env_setup w cfg)) = None"
  "variables (fst (Env_setup w cfg)) = []"
  by (simp_all add: Env_setup_def Let_def)

lemma Env_setup_quiet: "filter after_resolution (snd (Env_setup w cfg)) = []"
  by (simp add: Env_setup_def Let_def split: option.splits)

lemma Env_find_quiet:
  "filter after_resolution (snd (Env_find w n s)) = filter after_resolution (snd s)"
  by (simp add: Env_find_def Let_def emit_def split: option.splits)

lemma Env_find_env:
  "Env_find w n s = (Inr e, tr) \<Longrightarrow> \<exists>p. e = fst s\<lparr>project := Some p\<rparr>"
  by (auto simp add: Env_find_def Let_def emit_def split: option.splits if_splits)

lemma Env_locate_quiet:
  "filter after_resolution (snd (Env_locate w s)) = filter after_resolution (snd s)"
  by (simp add: Env_locate_def Env_find_quiet split: option.splits)

lemma Env_locate_env:
  assumes "Env_locate w s = (Inr e, tr)"
  shows "\<exists>p. e = fst s\<lparr>project := p\<rparr>"
proof (cases "\<exists>a n. args (fst s) = Some a \<and> args_project a = Some n \<and> truthy n")
  case True
  with assms obtain n where "Env_find w n s = (Inr e, tr)"
    by (auto simp add: Env_locate_def)
  then show ?thesis by (blast dest: Env_find_env)
next
  case False
  with assms have "e = fst s"
    by (auto simp add: Env_locate_def split: option.splits if_splits)
  then have "e = fst s\<lparr>project := project (fst s)\<rparr>" by simp
  then show ?thesis ..
qed

lemma resolution_quiet: "filter after_resolution (snd (resolution w cfg)) = []"
  by (simp add: resolution_def Env_locate_quiet Env_setup_quiet)

lemma resolution_env:
  assumes "resolution w cfg = (Inr e, tr)"
  shows "args e = cfg_args cfg \<and> variant e = cfg_variant cfg \<and> spec e = cfg_spec cfg
    \<and> config e = None \<and> root_dir e = None \<and> build_dir e = None \<and> deps_dir e = None
    \<and> install_dir e = None \<and> variables e = []"
proof -
  from assms obtain p where "e = fst (Env_setup w cfg)\<lparr>project := p\<rparr>"
    unfolding resolution_def by (blast dest: Env_locate_env)
  then show ?thesis by (simp add: Env_setup_attrs)
qed

lemma Env_init_resolution:
  "Env_init w cfg =
     (case resolution w cfg of
        (Inl err, tr) \<Rightarrow> (Inl err, tr)
      | (Inr e, tr) \<Rightarrow>
          if nothing_to_build e then (Inr e, tr)
          else Env_configure w (the (project e)) (e, tr))"
  by (simp add: Env_init_def resolution_def)

lemma resolution_demo_idle:
  "resolution demo_world (request None) =
     (Inr \<lparr>dryrun = False, variables = [], branch = ''main'', shell = Shell False,
           launch_dir = ''/work'', project = None,
           args = Some \<lparr>args_project = Some None, args_cli_config = Some []\<rparr>,
           variant = Some None, spec = Some ''spec'', config = None, root_dir = None,
           build_dir = None, deps_dir = None, install_dir = None\<rparr>,
      [ShellNew False, ShellCwd, SetSearchDirs [''/work''], DefaultProject])"
  by (simp add: resolution_def Env_locate_def Env_setup_def Let_def demo_world_def request_def
      get_git_branch_def Env_get_git_branch_def probe_or_main_def os_path_abspath_def os_path_isabs_def startswith_def
      os_path_normpath_def norm_step_def)

text \<open>
  C8. When the constructor reaches line 79 with no project, or with one that is not
  resolved, it returns there: the object and the calls are those of lines 16 to 77. The
  object has no \<open>config\<close>, \<open>root_dir\<close>, \<open>build_dir\<close>, \<open>deps_dir\<close> or \<open>install_dir\<close>, its
  variable store is empty, and among the calls there is no \<open>use_variant\<close>, \<open>get_config\<close>,
  publication, \<open>shell.cd\<close>, \<open>addpathenv\<close>, extension of \<open>Project.search_dirs\<close>, \<open>shell.rm\<close>
  or \<open>shell.mkdir\<close>.
\<close>

theorem nothing_to_build_stops:
  assumes "resolution w cfg = (Inr e, tr)" and "nothing_to_build e"
  shows "Env_init w cfg = (Inr e, tr)
    \<and> config e = None \<and> root_dir e = None \<and> build_dir e = None \<and> deps_dir e = None
    \<and> install_dir e = None \<and> variables e = []
    \<and> filter after_resolution tr = []"
proof -
  have "Env_init w cfg = (Inr e, tr)"
    using assms by (simp add: Env_init_resolution)
  moreover have "filter after_resolution tr = []"
    using resolution_quiet [of w cfg] assms(1) by simp
  ultimately show ?thesis
    using resolution_env [OF assms(1)] by simp
qed

theorem nothing_to_build_stops_witness:
  "Env_init demo_world (request None) =
     (Inr \<lparr>dryrun = False, variables = [], branch = ''main'', shell = Shell False,
           launch_dir = ''/work'', project = None,
           args = Some \<lparr>args_project = Some None, args_cli_config = Some []\<rparr>,
           variant = Some None, spec = Some ''spec'', config = None, root_dir = None,
           build_dir = None, deps_dir = None, install_dir = None\<rparr>,
      [ShellNew False, ShellCwd, SetSearchDirs [''/work''], DefaultProject])"
  using nothing_to_build_stops [OF resolution_demo_idle]
  by (simp add: nothing_to_build_def)

section \<open>Paths\<close>

lemma str_split_nonempty: "str_split c s \<noteq> []"
  by (induction s) (auto split: list.splits)

lemma str_split_free: "x \<in> set (str_split c s) \<Longrightarrow> c \<notin> set x"
  by (induction s arbitrary: x) (auto split: list.splits if_splits)

lemma str_split_single: "c \<notin> set s \<Longrightarrow> str_split c s = [s]"
  by (induction s) auto

lemma str_split_append:
  "c \<notin> set a \<Longrightarrow> str_split c (a @ c # s) = a # str_split c s"
  by (induction a) auto

lemma str_split_join:
  "cs \<noteq> [] \<Longrightarrow> \<forall>x \<in> set cs. c \<notin> set x \<Longrightarrow> str_split c (str_join [c] cs) = cs"
proof (induction cs)
  case Nil then show ?case by simp
next
  case (Cons x xs)
  then show ?case
    by (cases xs) (simp_all add: str_split_single str_split_append)
qed

lemma str_join_snoc:
  "str_join sep (cs @ [x]) = (if cs = [] then x else str_join sep cs @ sep @ x)"
  by (induction sep cs rule: str_join.induct) auto

lemma str_join_last_nonempty:
  "cs \<noteq> [] \<Longrightarrow> last cs \<noteq> [] \<Longrightarrow> str_join sep cs \<noteq> []"
  by (induction sep cs rule: str_join.induct) auto

lemma str_join_last:
  "cs \<noteq> [] \<Longrightarrow> last cs \<noteq> [] \<Longrightarrow> last (str_join sep cs) = last (last cs)"
proof (induction sep cs rule: str_join.induct)
  case (3 sep x y ys)
  then have "str_join sep (y # ys) \<noteq> []"
    using str_join_last_nonempty [of "y # ys" sep] by simp
  with 3 show ?case by simp
qed simp_all

lemma str_join_empty: "\<forall>x \<in> set cs. x \<noteq> [] \<Longrightarrow> (str_join sep cs = []) = (cs = [])"
  by (induction sep cs rule: str_join.induct) auto

lemma str_join_hd:
  "cs \<noteq> [] \<Longrightarrow> hd cs \<noteq> [] \<Longrightarrow> hd (str_join sep cs) = hd (hd cs)"
  by (induction sep cs rule: str_join.induct) auto

lemma norm_fold_plain:
  "0 < n \<Longrightarrow> \<forall>x \<in> set acc. plain x \<Longrightarrow> \<forall>x \<in> set xs. CHR ''/'' \<notin> set x
   \<Longrightarrow> \<forall>x \<in> set (foldl (norm_step n) acc xs). plain x"
proof (induction xs arbitrary: acc)
  case Nil then show ?case by simp
next
  case (Cons a xs)
  have "\<forall>x \<in> set (norm_step n acc a). plain x"
  proof -
    have l: "acc \<noteq> [] \<Longrightarrow> last acc \<noteq> ''..''"
      using Cons.prems(2) last_in_set [of acc] by (auto simp add: plain_def)
    have b: "\<forall>x \<in> set (butlast acc). plain x"
      using Cons.prems(2) by (auto dest: in_set_butlastD)
    show ?thesis
      using Cons.prems l b by (auto simp add: norm_step_def plain_def)
  qed
  with Cons show ?case by simp
qed

lemma norm_fold_keep:
  "0 < n \<Longrightarrow> \<forall>x \<in> set xs. plain x \<Longrightarrow> foldl (norm_step n) acc xs = acc @ xs"
  by (induction xs arbitrary: acc) (auto simp add: norm_step_def plain_def)

lemma norm_fold_skip: "foldl (norm_step n) acc (replicate k [] @ xs) = foldl (norm_step n) acc xs"
  by (induction k) (auto simp add: norm_step_def)

lemma split_slashes:
  "str_split CHR ''/'' (replicate k CHR ''/'' @ s) = replicate k [] @ str_split CHR ''/'' s"
  by (induction k) auto

text \<open>normpath of an absolute path has the form: one or two slashes, then plain components.\<close>

lemma normpath_abs_form:
  assumes "os_path_isabs q"
  shows "\<exists>n cs. (n = 1 \<or> n = 2) \<and> (\<forall>x \<in> set cs. plain x)
           \<and> os_path_normpath q = replicate n CHR ''/'' @ str_join ''/'' cs"
proof -
  from assms have ne: "q \<noteq> []" and sl: "startswith q ''/''"
    by (auto simp add: os_path_isabs_def startswith_def)
  define n where "n = (if startswith q ''//'' \<and> \<not> startswith q ''///'' then 2 else (1::nat))"
  define cs where "cs = foldl (norm_step n) [] (str_split CHR ''/'' q)"
  have n: "n = 1 \<or> n = 2" by (simp add: n_def)
  then have pos: "0 < n" by auto
  have "\<forall>x \<in> set cs. plain x"
    unfolding cs_def using pos by (intro norm_fold_plain) (auto dest: str_split_free)
  moreover have "os_path_normpath q = replicate n CHR ''/'' @ str_join ''/'' cs"
    using ne sl n by (auto simp add: os_path_normpath_def Let_def n_def cs_def)
  ultimately show ?thesis using n by blast
qed

lemma normpath_form_fixed:
  assumes n: "n = 1 \<or> n = 2" and cs: "\<forall>x \<in> set cs. plain x"
  shows "os_path_normpath (replicate n CHR ''/'' @ str_join ''/'' cs) = replicate n CHR ''/'' @ str_join ''/'' cs"
proof -
  let ?p = "replicate n CHR ''/'' @ str_join ''/'' cs"
  from n have pos: "0 < n" by auto
  have ne: "?p \<noteq> []" using n by auto
  have h: "cs \<noteq> [] \<Longrightarrow> str_join ''/'' cs \<noteq> [] \<and> hd (str_join ''/'' cs) \<noteq> CHR ''/''"
  proof -
    assume a: "cs \<noteq> []"
    then have "hd cs \<in> set cs" by simp
    with cs have "hd cs \<noteq> []" "CHR ''/'' \<notin> set (hd cs)" by (auto simp add: plain_def)
    moreover from this have "hd (hd cs) \<noteq> CHR ''/''" by (cases "hd cs") auto
    ultimately show ?thesis
      using a cs str_join_hd [of cs "''/''"] str_join_empty [of cs "''/''"]
      by (auto simp add: plain_def)
  qed
  have init: "(if startswith ?p ''/''
               then (if startswith ?p ''//'' \<and> \<not> startswith ?p ''///'' then 2 else 1)
               else (0::nat)) = n"
  proof (cases "cs = []")
    case True
    with n show ?thesis by (auto simp add: startswith_def numeral_2_eq_2)
  next
    case False
    with h obtain y ys where "str_join ''/'' cs = y # ys" "y \<noteq> CHR ''/''"
      by (cases "str_join ''/'' cs") auto
    with n show ?thesis by (auto simp add: startswith_def numeral_2_eq_2)
  qed
  have sp: "foldl (norm_step n) [] (str_split CHR ''/'' ?p) = cs"
  proof (cases "cs = []")
    case True
    then show ?thesis
      using split_slashes [of n "[]"] norm_fold_skip [of n "[]" n "[[]]"]
      by (simp add: norm_step_def)
  next
    case False
    have "\<forall>x \<in> set cs. CHR ''/'' \<notin> set x" using cs by (simp add: plain_def)
    with False have "str_split CHR ''/'' (str_join ''/'' cs) = cs"
      using str_split_join [of cs "CHR ''/''"] by simp
    then have a: "str_split CHR ''/'' ?p = replicate n [] @ cs"
      by (simp add: split_slashes)
    have "foldl (norm_step n) [] (replicate n [] @ cs) = foldl (norm_step n) [] cs"
      by (rule norm_fold_skip)
    also have "\<dots> = cs"
      using norm_fold_keep [OF pos cs, of "[]"] by simp
    finally show ?thesis
      unfolding a .
  qed
  show ?thesis
    unfolding os_path_normpath_def Let_def init sp using ne by simp
qed

lemma join_form:
  assumes n: "n = 1 \<or> n = 2" and cs: "\<forall>x \<in> set cs. plain x" and x: "plain x"
  shows "os_path_join (replicate n CHR ''/'' @ str_join ''/'' cs) [x]
           = replicate n CHR ''/'' @ str_join ''/'' (cs @ [x])"
proof (cases "cs = []")
  case True
  with n x show ?thesis
    by (cases x) (auto simp add: os_path_join_def join_step_def startswith_def plain_def)
next
  case False
  then have "last cs \<in> set cs" by simp
  with cs have l: "last cs \<noteq> []" "CHR ''/'' \<notin> set (last cs)" by (auto simp add: plain_def)
  then have "last (last cs) \<noteq> CHR ''/''" using last_in_set [of "last cs"] by metis
  with False l have a: "last (str_join ''/'' cs) \<noteq> CHR ''/''"
    by (simp add: str_join_last)
  have b: "str_join ''/'' cs \<noteq> []"
    using False cs str_join_empty [of cs "''/''"] by (auto simp add: plain_def)
  from x have c: "\<not> startswith x ''/''" by (cases x) (auto simp add: startswith_def plain_def)
  show ?thesis
    using False a b c by (simp add: os_path_join_def join_step_def str_join_snoc)
qed

text \<open>Joining a plain component to a normalised absolute path gives a normalised absolute path.\<close>

lemma abspath_join_exact:
  assumes "os_path_isabs q" and "plain x"
  shows "os_path_abspath cwd (os_path_join (os_path_normpath q) [x]) = os_path_join (os_path_normpath q) [x]
       \<and> (\<exists>q'. os_path_isabs q' \<and> os_path_join (os_path_normpath q) [x] = os_path_normpath q')"
proof -
  from normpath_abs_form [OF assms(1)] obtain n cs where
    n: "n = 1 \<or> n = 2" and cs: "\<forall>x \<in> set cs. plain x"
    and q: "os_path_normpath q = replicate n CHR ''/'' @ str_join ''/'' cs" by blast
  let ?j = "replicate n CHR ''/'' @ str_join ''/'' (cs @ [x])"
  have j: "os_path_join (os_path_normpath q) [x] = ?j"
    unfolding q by (rule join_form [OF n cs assms(2)])
  have p: "\<forall>y \<in> set (cs @ [x]). plain y" using cs assms(2) by simp
  have f: "os_path_normpath ?j = ?j" by (rule normpath_form_fixed [OF n p])
  have a: "os_path_isabs ?j" using n by (auto simp add: os_path_isabs_def startswith_def)
  then have "os_path_abspath cwd ?j = ?j" by (simp add: os_path_abspath_def f)
  with j a f show ?thesis by metis
qed

lemma abspath_isabs:
  assumes "os_path_isabs cwd"
  shows "os_path_isabs (os_path_abspath cwd p)"
proof -
  let ?q = "if \<not> os_path_isabs p then os_path_join cwd [p] else p"
  have "os_path_isabs ?q"
    using assms by (cases cwd) (auto simp add: os_path_isabs_def os_path_join_def join_step_def startswith_def)
  from normpath_abs_form [OF this] obtain n cs where
    "n = 1 \<or> n = 2" "os_path_normpath ?q = replicate n CHR ''/'' @ str_join ''/'' cs" by blast
  then show ?thesis
    by (auto simp add: os_path_abspath_def os_path_isabs_def startswith_def)
qed

lemma abspath_is_normpath:
  assumes "os_path_isabs cwd"
  shows "\<exists>q. os_path_isabs q \<and> os_path_abspath cwd p = os_path_normpath q"
proof -
  let ?q = "if \<not> os_path_isabs p then os_path_join cwd [p] else p"
  have "os_path_isabs ?q"
    using assms by (cases cwd) (auto simp add: os_path_isabs_def os_path_join_def join_step_def startswith_def)
  then show ?thesis by (auto simp add: os_path_abspath_def)
qed

section \<open>The demo host\<close>

lemmas path_defs = os_path_abspath_def os_path_isabs_def startswith_def
      os_path_normpath_def norm_step_def os_path_join_def join_step_def Let_def

lemma demo_paths:
  "os_path_abspath ''/work'' ''/work'' = ''/work''"
  "os_path_abspath ''/work'' ''.'' = ''/work''"
  "os_path_abspath ''/work'' ''foo'' = ''/work/foo''"
  "os_path_abspath ''/work'' ''libs'' = ''/work/libs''"
  "os_path_abspath ''/work'' ''/work/foo'' = ''/work/foo''"
  "os_path_abspath ''/work'' (os_path_join ''libs'' [''foo'']) = ''/work/libs/foo''"
  "os_path_join ''/work/foo'' [''build''] = ''/work/foo/build''"
  "os_path_join ''/work/foo/build'' [''deps''] = ''/work/foo/build/deps''"
  "os_path_join ''/work/foo/build'' [''install''] = ''/work/foo/build/install''"
  "os_path_abspath ''/work/foo'' ''/work/foo/build'' = ''/work/foo/build''"
  "os_path_abspath ''/work/foo'' ''/work/foo/build/deps'' = ''/work/foo/build/deps''"
  "os_path_abspath ''/work/foo'' ''/work/foo/build/install'' = ''/work/foo/build/install''"
  "os_path_abspath ''/work/foo'' (os_path_join ''/work/foo/build/install'' [''lib64'']) = ''/work/foo/build/install/lib64''"
  "os_path_abspath ''/work/foo'' (os_path_join ''/work/foo/build/install'' [''lib'']) = ''/work/foo/build/install/lib''"
  by (simp_all add: path_defs)

lemma demo_world_fields:
  "os_environ demo_world = (\<lambda>k. None)"
  "check_output demo_world = None"
  "sys_platform demo_world = ''linux''"
  "os_getcwd demo_world = cwd_after ''/work''"
  "os_path_exists demo_world = (\<lambda>tr p. True)"
  "Shell_cwd demo_world = cwd_after ''/work''"
  "Project_default_project demo_world = (\<lambda>tr. None)"
  "Project_find_project demo_world = (\<lambda>tr name hints.
         if downloaded tr then \<lparr>p_name = name, p_path = Some name, p_resolved = True\<rparr>
         else \<lparr>p_name = name, p_path = None, p_resolved = False\<rparr>)"
  "DownloadSource_run demo_world = (\<lambda>tr p b d. None)"
  "Project_get_config demo_world = (\<lambda>tr p sp cli. [])"
  by (simp_all add: demo_world_def)

lemma demo_branch: "get_git_branch demo_world = ''main''"
  by (simp add: get_git_branch_def Env_get_git_branch_def probe_or_main_def demo_world_fields)

lemma demo_setup:
  "Env_setup demo_world (request n) =
     (\<lparr>dryrun = False, variables = [], branch = ''main'', shell = Shell False,
       launch_dir = ''/work'', project = None,
       args = Some \<lparr>args_project = Some n, args_cli_config = Some []\<rparr>,
       variant = Some None, spec = Some ''spec'', config = None, root_dir = None,
       build_dir = None, deps_dir = None, install_dir = None\<rparr>,
      [ShellNew False, ShellCwd, SetSearchDirs [''/work''], DefaultProject])"
  by (simp add: Env_setup_def Let_def request_def demo_branch demo_world_fields demo_paths)

lemma demo_locate:
  "resolution demo_world (request (Some ''libs/foo'')) =
     (Inr \<lparr>dryrun = False, variables = [], branch = ''main'', shell = Shell False,
       launch_dir = ''/work'',
       project = Some \<lparr>p_name = ''foo'', p_path = Some ''foo'', p_resolved = True\<rparr>,
       args = Some \<lparr>args_project = Some (Some ''libs/foo''), args_cli_config = Some []\<rparr>,
       variant = Some None, spec = Some ''spec'', config = None, root_dir = None,
       build_dir = None, deps_dir = None, install_dir = None\<rparr>,
      [ShellNew False, ShellCwd, SetSearchDirs [''/work''], DefaultProject,
       FindProject ''foo'' [''/work/libs/foo''],
       Download \<lparr>p_name = ''foo'', p_path = None, p_resolved = False\<rparr> ''main'' ''.'',
       FindProject ''foo'' [''/work'']])"
  by (simp add: resolution_def demo_setup Env_locate_def Env_find_def Let_def emit_def
      project_hints_def project_bare_name_def demo_world_fields demo_paths)

lemma demo_layout:
  "Env_layout demo_world ''foo'' []
     (\<lparr>dryrun = False, variables = [], branch = ''main'', shell = Shell False,
       launch_dir = ''/work'',
       project = Some \<lparr>p_name = ''foo'', p_path = Some ''foo'', p_resolved = True\<rparr>,
       args = Some \<lparr>args_project = Some (Some ''libs/foo''), args_cli_config = Some []\<rparr>,
       variant = Some None, spec = Some ''spec'', config = Some [], root_dir = None,
       build_dir = None, deps_dir = None, install_dir = None\<rparr>,
      [ShellNew False, ShellCwd, SetSearchDirs [''/work''], DefaultProject,
       FindProject ''foo'' [''/work/libs/foo''],
       Download \<lparr>p_name = ''foo'', p_path = None, p_resolved = False\<rparr> ''main'' ''.'',
       FindProject ''foo'' [''/work''], UseVariant None, GetConfig ''spec'' []])
   = (\<lparr>dryrun = False,
       variables = [(''root_dir'', ''/work/foo''), (''build_dir'', ''/work/foo/build''),
          (''deps_dir'', ''/work/foo/build/deps''), (''install_dir'', ''/work/foo/build/install'')],
       branch = ''main'', shell = Shell False, launch_dir = ''/work'',
       project = Some \<lparr>p_name = ''foo'', p_path = Some ''foo'', p_resolved = True\<rparr>,
       args = Some \<lparr>args_project = Some (Some ''libs/foo''), args_cli_config = Some []\<rparr>,
       variant = Some None, spec = Some ''spec'', config = Some [],
       root_dir = Some ''/work/foo'', build_dir = Some ''/work/foo/build'',
       deps_dir = Some ''/work/foo/build/deps'', install_dir = Some ''/work/foo/build/install''\<rparr>,
      [ShellNew False, ShellCwd, SetSearchDirs [''/work''], DefaultProject,
       FindProject ''foo'' [''/work/libs/foo''],
       Download \<lparr>p_name = ''foo'', p_path = None, p_resolved = False\<rparr> ''main'' ''.'',
       FindProject ''foo'' [''/work''], UseVariant None, GetConfig ''spec'' [],
       Publish ''root_dir'' ''/work/foo'', ShellCd ''/work/foo'',
       Publish ''build_dir'' ''/work/foo/build'',
       Publish ''deps_dir'' ''/work/foo/build/deps'',
       Publish ''install_dir'' ''/work/foo/build/install'',
       AddPathEnv ''LD_LIBRARY_PATH'' ''/work/foo/build/install/lib64'',
       AddPathEnv ''LD_LIBRARY_PATH'' ''/work/foo/build/install/lib'',
       ExtendSearchDirs [''/work/foo/build'', ''/work/foo'', ''/work/foo/build/deps''],
       ShellRm ''/work/foo/build'', ShellMkdir ''/work/foo/build''])"
  by (simp add: Env_layout_def Let_def Variables_setitem_def emit_def dict_get_def
      demo_world_fields demo_paths)

lemma demo_run:
  "Env_init demo_world (request (Some ''libs/foo'')) =
   (Inr \<lparr>dryrun = False,
       variables = [(''root_dir'', ''/work/foo''), (''build_dir'', ''/work/foo/build''),
          (''deps_dir'', ''/work/foo/build/deps''), (''install_dir'', ''/work/foo/build/install'')],
       branch = ''main'', shell = Shell False, launch_dir = ''/work'',
       project = Some \<lparr>p_name = ''foo'', p_path = Some ''foo'', p_resolved = True\<rparr>,
       args = Some \<lparr>args_project = Some (Some ''libs/foo''), args_cli_config = Some []\<rparr>,
       variant = Some None, spec = Some ''spec'', config = Some [],
       root_dir = Some ''/work/foo'', build_dir = Some ''/work/foo/build'',
       deps_dir = Some ''/work/foo/build/deps'', install_dir = Some ''/work/foo/build/install''\<rparr>,
      [ShellNew False, ShellCwd, SetSearchDirs [''/work''], DefaultProject,
       FindProject ''foo'' [''/work/libs/foo''],
       Download \<lparr>p_name = ''foo'', p_path = None, p_resolved = False\<rparr> ''main'' ''.'',
       FindProject ''foo'' [''/work''], UseVariant None, GetConfig ''spec'' [],
       Publish ''root_dir'' ''/work/foo'', ShellCd ''/work/foo'',
       Publish ''build_dir'' ''/work/foo/build'',
       Publish ''deps_dir'' ''/work/foo/build/deps'',
       Publish ''install_dir'' ''/work/foo/build/install'',
       AddPathEnv ''LD_LIBRARY_PATH'' ''/work/foo/build/install/lib64'',
       AddPathEnv ''LD_LIBRARY_PATH'' ''/work/foo/build/install/lib'',
       ExtendSearchDirs [''/work/foo/build'', ''/work/foo'', ''/work/foo/build/deps''],
       ShellRm ''/work/foo/build'', ShellMkdir ''/work/foo/build''])"
  by (simp add: Env_init_resolution demo_locate nothing_to_build_def Env_configure_def emit_def
      demo_world_fields demo_layout)

section \<open>A constructor that builds\<close>

lemma Env_layout_shape:
  assumes "Env_layout w path c s = (e', tr')"
  shows "\<exists>r b d i envs pre cb cd ci.
      r = os_path_abspath (os_getcwd w (snd s)) path
    \<and> b = os_path_abspath cb (dict_get c ''build_dir'' (os_path_join r [''build'']))
    \<and> d = os_path_abspath cd (dict_get c ''deps_dir'' (os_path_join b [''deps'']))
    \<and> i = os_path_abspath ci (dict_get c ''install_dir'' (os_path_join b [''install'']))
    \<and> cb \<in> range (os_getcwd w) \<and> cd \<in> range (os_getcwd w) \<and> ci \<in> range (os_getcwd w)
    \<and> e' = fst s\<lparr>root_dir := Some r, build_dir := Some b, deps_dir := Some d, install_dir := Some i,
          variables := AList.update ''install_dir'' i (AList.update ''deps_dir'' d
             (AList.update ''build_dir'' b (AList.update ''root_dir'' r (variables (fst s)))))\<rparr>
    \<and> pre = snd s @ [Publish ''root_dir'' r, ShellCd r, Publish ''build_dir'' b,
                      Publish ''deps_dir'' d, Publish ''install_dir'' i] @ envs @ [ExtendSearchDirs [b, r, d]]
    \<and> tr' = pre @ (if os_path_exists w pre b then [ShellRm b] else []) @ [ShellMkdir b]
    \<and> filter (\<lambda>ev. is_publish ev \<or> is_build_dir_op ev \<or> is_lookup ev) envs = []"
proof -
  define r where "r = os_path_abspath (os_getcwd w (snd s)) path"
  define s1 where "s1 = Variables_setitem ''root_dir'' r (fst s\<lparr>root_dir := Some r\<rparr>, snd s)"
  define s2 where "s2 = emit (ShellCd r) s1"
  define cb where "cb = os_getcwd w (snd s2)"
  define b where "b = os_path_abspath cb (dict_get c ''build_dir'' (os_path_join r [''build'']))"
  define s3 where "s3 = Variables_setitem ''build_dir'' b (fst s2\<lparr>build_dir := Some b\<rparr>, snd s2)"
  define cd where "cd = os_getcwd w (snd s3)"
  define d where "d = os_path_abspath cd (dict_get c ''deps_dir'' (os_path_join b [''deps'']))"
  define s4 where "s4 = Variables_setitem ''deps_dir'' d (fst s3\<lparr>deps_dir := Some d\<rparr>, snd s3)"
  define ci where "ci = os_getcwd w (snd s4)"
  define i where "i = os_path_abspath ci (dict_get c ''install_dir'' (os_path_join b [''install'']))"
  define s5 where "s5 = Variables_setitem ''install_dir'' i (fst s4\<lparr>install_dir := Some i\<rparr>, snd s4)"
  define s6 where "s6 = (if sys_platform w = ''win32''
                then emit (AddPathEnv ''PATH''
                       (os_path_abspath (os_getcwd w (snd s5)) (os_path_join i [''bin'']))) s5
                else
                  (let s5' = emit (AddPathEnv ''LD_LIBRARY_PATH''
                               (os_path_abspath (os_getcwd w (snd s5)) (os_path_join i [''lib64'']))) s5
                   in emit (AddPathEnv ''LD_LIBRARY_PATH''
                        (os_path_abspath (os_getcwd w (snd s5')) (os_path_join i [''lib'']))) s5'))"
  define s7 where "s7 = emit (ExtendSearchDirs [b, r, d]) s6"
  define s8 where "s8 = (if os_path_exists w (snd s7) b then emit (ShellRm b) s7 else s7)"
  have run: "Env_layout w path c s = emit (ShellMkdir b) s8"
    unfolding Env_layout_def Let_def s8_def s7_def s6_def s5_def i_def ci_def s4_def d_def cd_def
      s3_def b_def cb_def s2_def s1_def r_def
    by (rule refl)
  have t5: "snd s5 = snd s @ [Publish ''root_dir'' r, ShellCd r, Publish ''build_dir'' b,
                      Publish ''deps_dir'' d, Publish ''install_dir'' i]"
    by (simp add: s5_def s4_def s3_def s2_def s1_def Variables_setitem_def emit_def)
  have e5: "fst s5 = fst s\<lparr>root_dir := Some r, build_dir := Some b, deps_dir := Some d, install_dir := Some i,
          variables := AList.update ''install_dir'' i (AList.update ''deps_dir'' d
             (AList.update ''build_dir'' b (AList.update ''root_dir'' r (variables (fst s)))))\<rparr>"
    by (simp add: s5_def s4_def s3_def s2_def s1_def Variables_setitem_def emit_def)
  obtain envs where t6: "snd s6 = snd s5 @ envs"
    and q6: "filter (\<lambda>ev. is_publish ev \<or> is_build_dir_op ev \<or> is_lookup ev) envs = []"
    and e6: "fst s6 = fst s5"
    by (cases "sys_platform w = ''win32''") (simp_all add: s6_def emit_def Let_def)
  define pre where "pre = snd s @ [Publish ''root_dir'' r, ShellCd r, Publish ''build_dir'' b,
                      Publish ''deps_dir'' d, Publish ''install_dir'' i] @ envs @ [ExtendSearchDirs [b, r, d]]"
  have t7: "snd s7 = pre" and e7: "fst s7 = fst s5"
    by (simp_all add: s7_def emit_def t6 t5 pre_def e6)
  have t9: "snd (emit (ShellMkdir b) s8) = pre @ (if os_path_exists w pre b then [ShellRm b] else []) @ [ShellMkdir b]"
    and e9: "fst (emit (ShellMkdir b) s8) = fst s5"
    by (simp_all add: s8_def emit_def t7 e7)
  from assms run have "e' = fst (emit (ShellMkdir b) s8)" "tr' = snd (emit (ShellMkdir b) s8)"
    by simp_all
  with t9 e9 e5 have res: "e' = fst s\<lparr>root_dir := Some r, build_dir := Some b, deps_dir := Some d, install_dir := Some i,
          variables := AList.update ''install_dir'' i (AList.update ''deps_dir'' d
             (AList.update ''build_dir'' b (AList.update ''root_dir'' r (variables (fst s)))))\<rparr>"
     "tr' = pre @ (if os_path_exists w pre b then [ShellRm b] else []) @ [ShellMkdir b]"
    by simp_all
  have rng: "cb \<in> range (os_getcwd w)" "cd \<in> range (os_getcwd w)" "ci \<in> range (os_getcwd w)"
    by (simp_all add: cb_def cd_def ci_def)
  show ?thesis
    using r_def b_def d_def i_def rng res pre_def q6 by blast
qed

lemma quiet_build_dir: "filter after_resolution tr = [] \<Longrightarrow> filter is_build_dir_op tr = []"
proof -
  have "is_build_dir_op ev \<Longrightarrow> after_resolution ev" for ev by (cases ev) simp_all
  then show "filter after_resolution tr = [] \<Longrightarrow> filter is_build_dir_op tr = []"
    by (auto simp add: filter_empty_conv)
qed

lemma quiet_publish: "filter after_resolution tr = [] \<Longrightarrow> filter is_publish tr = []"
proof -
  have "is_publish ev \<Longrightarrow> after_resolution ev" for ev by (cases ev) simp_all
  then show "filter after_resolution tr = [] \<Longrightarrow> filter is_publish tr = []"
    by (auto simp add: filter_empty_conv)
qed

lemma Env_configure_Inr:
  assumes "Env_configure w p s = (Inr e', tr')"
  shows "\<exists>v sp a cli path c. variant (fst s) = Some v \<and> spec (fst s) = Some sp
     \<and> args (fst s) = Some a \<and> args_cli_config a = Some cli \<and> p_path p = Some path
     \<and> c = Project_get_config w (snd s @ [UseVariant v]) p sp cli
     \<and> Env_layout w path c (fst s\<lparr>config := Some c\<rparr>, snd s @ [UseVariant v, GetConfig sp cli]) = (e', tr')"
  using assms
  by (auto simp add: Env_configure_def emit_def Let_def prod_eq_iff split: option.splits)

lemma Env_init_built:
  assumes "Env_init w cfg = (Inr e, tr)" and "\<not> nothing_to_build e"
  shows "\<exists>e0 tr0 p. resolution w cfg = (Inr e0, tr0) \<and> project e0 = Some p \<and> p_resolved p
     \<and> Env_configure w p (e0, tr0) = (Inr e, tr)"
proof -
  obtain r tr0 where res: "resolution w cfg = (r, tr0)" by (cases "resolution w cfg")
  show ?thesis
  proof (cases r)
    case (Inl err)
    with res assms(1) show ?thesis by (simp add: Env_init_resolution)
  next
    case (Inr e0)
    show ?thesis
    proof (cases "nothing_to_build e0")
      case True
      with res Inr assms show ?thesis by (simp add: Env_init_resolution)
    next
      case False
      then obtain p where "project e0 = Some p" "p_resolved p"
        by (auto simp add: nothing_to_build_def split: option.splits)
      with res Inr False assms(1) show ?thesis by (simp add: Env_init_resolution)
    qed
  qed
qed

lemma built_shape:
  assumes "Env_init w cfg = (Inr e, tr)" and "\<not> nothing_to_build e"
  shows "\<exists>tr0 v sp cli p path c r b d i envs pre cb cd ci.
      filter after_resolution tr0 = []
    \<and> project e = Some p \<and> p_resolved p \<and> p_path p = Some path \<and> config e = Some c
    \<and> r = os_path_abspath (os_getcwd w (tr0 @ [UseVariant v, GetConfig sp cli])) path
    \<and> b = os_path_abspath cb (dict_get c ''build_dir'' (os_path_join r [''build'']))
    \<and> d = os_path_abspath cd (dict_get c ''deps_dir'' (os_path_join b [''deps'']))
    \<and> i = os_path_abspath ci (dict_get c ''install_dir'' (os_path_join b [''install'']))
    \<and> cb \<in> range (os_getcwd w) \<and> cd \<in> range (os_getcwd w) \<and> ci \<in> range (os_getcwd w)
    \<and> root_dir e = Some r \<and> build_dir e = Some b \<and> deps_dir e = Some d \<and> install_dir e = Some i
    \<and> variables e = [(''root_dir'', r), (''build_dir'', b), (''deps_dir'', d), (''install_dir'', i)]
    \<and> pre = tr0 @ [UseVariant v, GetConfig sp cli, Publish ''root_dir'' r, ShellCd r,
                     Publish ''build_dir'' b, Publish ''deps_dir'' d, Publish ''install_dir'' i]
                 @ envs @ [ExtendSearchDirs [b, r, d]]
    \<and> tr = pre @ (if os_path_exists w pre b then [ShellRm b] else []) @ [ShellMkdir b]
    \<and> filter (\<lambda>ev. is_publish ev \<or> is_build_dir_op ev \<or> is_lookup ev) envs = []"
proof -
  from Env_init_built [OF assms] obtain e0 tr0 p where
    res: "resolution w cfg = (Inr e0, tr0)" and p: "project e0 = Some p" "p_resolved p"
    and conf: "Env_configure w p (e0, tr0) = (Inr e, tr)" by blast
  have q: "filter after_resolution tr0 = []"
    using resolution_quiet [of w cfg] res by simp
  from resolution_env [OF res] have v0: "variables e0 = []" by simp
  from Env_configure_Inr [OF conf] obtain v sp cli path c where
    path: "p_path p = Some path"
    and lay: "Env_layout w path c (e0\<lparr>config := Some c\<rparr>, tr0 @ [UseVariant v, GetConfig sp cli]) = (e, tr)"
    by auto
  from Env_layout_shape [OF lay] obtain r b d i envs pre cb cd ci where
    r: "r = os_path_abspath (os_getcwd w (tr0 @ [UseVariant v, GetConfig sp cli])) path"
    and b: "b = os_path_abspath cb (dict_get c ''build_dir'' (os_path_join r [''build'']))"
    and d: "d = os_path_abspath cd (dict_get c ''deps_dir'' (os_path_join b [''deps'']))"
    and i: "i = os_path_abspath ci (dict_get c ''install_dir'' (os_path_join b [''install'']))"
    and rng: "cb \<in> range (os_getcwd w)" "cd \<in> range (os_getcwd w)" "ci \<in> range (os_getcwd w)"
    and e: "e = (e0\<lparr>config := Some c\<rparr>)\<lparr>root_dir := Some r, build_dir := Some b, deps_dir := Some d,
          install_dir := Some i,
          variables := AList.update ''install_dir'' i (AList.update ''deps_dir'' d
             (AList.update ''build_dir'' b (AList.update ''root_dir'' r (variables (e0\<lparr>config := Some c\<rparr>)))))\<rparr>"
    and pre: "pre = (tr0 @ [UseVariant v, GetConfig sp cli]) @ [Publish ''root_dir'' r, ShellCd r,
          Publish ''build_dir'' b, Publish ''deps_dir'' d, Publish ''install_dir'' i] @ envs
          @ [ExtendSearchDirs [b, r, d]]"
    and tr: "tr = pre @ (if os_path_exists w pre b then [ShellRm b] else []) @ [ShellMkdir b]"
    and envs: "filter (\<lambda>ev. is_publish ev \<or> is_build_dir_op ev \<or> is_lookup ev) envs = []"
    by (simp only: fst_conv snd_conv) blast
  have fields: "project e = Some p" "config e = Some c" "root_dir e = Some r" "build_dir e = Some b"
    "deps_dir e = Some d" "install_dir e = Some i"
    "variables e = [(''root_dir'', r), (''build_dir'', b), (''deps_dir'', d), (''install_dir'', i)]"
    using e p v0 by simp_all
  have pre': "pre = tr0 @ [UseVariant v, GetConfig sp cli, Publish ''root_dir'' r, ShellCd r,
                     Publish ''build_dir'' b, Publish ''deps_dir'' d, Publish ''install_dir'' i]
                 @ envs @ [ExtendSearchDirs [b, r, d]]"
    using pre by simp
  show ?thesis
    using q fields p(2) path r b d i rng pre' tr envs by blast
qed

text \<open>
  C7. When the constructor returns an object whose project is resolved, its calls end
  with \<open>shell.rm(build_dir)\<close>, made when \<open>os.path.exists(build_dir)\<close> holds, and
  \<open>shell.mkdir(build_dir)\<close>. No directory is removed or created before, so the build
  directory is removed at most once and created exactly once, and the four publications
  (root, build, deps and install directory) all come before.
\<close>

theorem build_dir_recreated_once:
  assumes "Env_init w cfg = (Inr e, tr)" and "\<not> nothing_to_build e"
  shows "\<exists>pre r b d i. root_dir e = Some r \<and> build_dir e = Some b \<and> deps_dir e = Some d
     \<and> install_dir e = Some i
     \<and> tr = pre @ (if os_path_exists w pre b then [ShellRm b] else []) @ [ShellMkdir b]
     \<and> filter is_build_dir_op pre = []
     \<and> filter is_publish pre = [Publish ''root_dir'' r, Publish ''build_dir'' b,
          Publish ''deps_dir'' d, Publish ''install_dir'' i]
     \<and> filter is_build_dir_op tr = (if os_path_exists w pre b then [ShellRm b] else []) @ [ShellMkdir b]"
proof -
  from built_shape [OF assms] obtain tr0 v sp cli r b d i envs pre where
    q: "filter after_resolution tr0 = []"
    and dirs: "root_dir e = Some r" "build_dir e = Some b" "deps_dir e = Some d" "install_dir e = Some i"
    and pre: "pre = tr0 @ [UseVariant v, GetConfig sp cli, Publish ''root_dir'' r, ShellCd r,
                     Publish ''build_dir'' b, Publish ''deps_dir'' d, Publish ''install_dir'' i]
                 @ envs @ [ExtendSearchDirs [b, r, d]]"
    and tr: "tr = pre @ (if os_path_exists w pre b then [ShellRm b] else []) @ [ShellMkdir b]"
    and envs: "filter (\<lambda>ev. is_publish ev \<or> is_build_dir_op ev \<or> is_lookup ev) envs = []"
    by blast
  from envs have e1: "filter is_build_dir_op envs = []" and e2: "filter is_publish envs = []"
    by (auto simp add: filter_empty_conv)
  have p1: "filter is_build_dir_op pre = []"
    by (simp add: pre quiet_build_dir [OF q] e1)
  have p2: "filter is_publish pre = [Publish ''root_dir'' r, Publish ''build_dir'' b,
          Publish ''deps_dir'' d, Publish ''install_dir'' i]"
    by (simp add: pre quiet_publish [OF q] e2)
  have p3: "filter is_build_dir_op tr = (if os_path_exists w pre b then [ShellRm b] else []) @ [ShellMkdir b]"
    by (subst tr) (simp add: p1)
  from dirs tr p1 p2 p3 show ?thesis by blast
qed

text \<open>
  C6. When the constructor returns an object whose project is resolved, on a host whose
  \<open>os.getcwd()\<close> is always an absolute path: a configuration without the key
  \<open>build_dir\<close> gives \<open>os.path.join(root_dir, 'build')\<close>, one without \<open>deps_dir\<close> gives
  \<open>os.path.join(build_dir, 'deps')\<close>, one without \<open>install_dir\<close> gives
  \<open>os.path.join(build_dir, 'install')\<close>, exactly; the three directories are absolute
  paths; the publications are those of \<open>root_dir\<close>, \<open>build_dir\<close>, \<open>deps_dir\<close> and
  \<open>install_dir\<close>, in that order, and the variable store holds the three values.
\<close>

theorem directory_defaults:
  assumes "Env_init w cfg = (Inr e, tr)" and "\<not> nothing_to_build e"
    and "\<forall>h. os_path_isabs (os_getcwd w h)"
  shows "\<exists>c r b d i. config e = Some c \<and> root_dir e = Some r \<and> build_dir e = Some b
     \<and> deps_dir e = Some d \<and> install_dir e = Some i
     \<and> (map_of c ''build_dir'' = None \<longrightarrow> b = os_path_join r [''build''])
     \<and> (map_of c ''deps_dir'' = None \<longrightarrow> d = os_path_join b [''deps''])
     \<and> (map_of c ''install_dir'' = None \<longrightarrow> i = os_path_join b [''install''])
     \<and> os_path_isabs b \<and> os_path_isabs d \<and> os_path_isabs i
     \<and> filter is_publish tr = [Publish ''root_dir'' r, Publish ''build_dir'' b,
          Publish ''deps_dir'' d, Publish ''install_dir'' i]
     \<and> map_of (variables e) ''build_dir'' = Some b
     \<and> map_of (variables e) ''deps_dir'' = Some d
     \<and> map_of (variables e) ''install_dir'' = Some i"
proof -
  from built_shape [OF assms(1,2)] obtain tr0 v sp cli path c r b d i envs pre cb cd ci where
    q: "filter after_resolution tr0 = []"
    and c: "config e = Some c"
    and r: "r = os_path_abspath (os_getcwd w (tr0 @ [UseVariant v, GetConfig sp cli])) path"
    and b: "b = os_path_abspath cb (dict_get c ''build_dir'' (os_path_join r [''build'']))"
    and d: "d = os_path_abspath cd (dict_get c ''deps_dir'' (os_path_join b [''deps'']))"
    and i: "i = os_path_abspath ci (dict_get c ''install_dir'' (os_path_join b [''install'']))"
    and rng: "cb \<in> range (os_getcwd w)" "cd \<in> range (os_getcwd w)" "ci \<in> range (os_getcwd w)"
    and dirs: "root_dir e = Some r" "build_dir e = Some b" "deps_dir e = Some d" "install_dir e = Some i"
    and vars: "variables e = [(''root_dir'', r), (''build_dir'', b), (''deps_dir'', d), (''install_dir'', i)]"
    and pre: "pre = tr0 @ [UseVariant v, GetConfig sp cli, Publish ''root_dir'' r, ShellCd r,
                     Publish ''build_dir'' b, Publish ''deps_dir'' d, Publish ''install_dir'' i]
                 @ envs @ [ExtendSearchDirs [b, r, d]]"
    and tr: "tr = pre @ (if os_path_exists w pre b then [ShellRm b] else []) @ [ShellMkdir b]"
    and envs: "filter (\<lambda>ev. is_publish ev \<or> is_build_dir_op ev \<or> is_lookup ev) envs = []"
    by blast
  from rng assms(3) have abs: "os_path_isabs cb" "os_path_isabs cd" "os_path_isabs ci"
    by auto
  have absr: "os_path_isabs (os_getcwd w (tr0 @ [UseVariant v, GetConfig sp cli]))"
    using assms(3) by simp
  from abspath_is_normpath [OF absr, of path] r obtain qr where
    qr: "os_path_isabs qr" "r = os_path_normpath qr" by auto
  from abspath_is_normpath [OF abs(1)] b obtain qb where
    qb: "os_path_isabs qb" "b = os_path_normpath qb" by blast
  have plain: "plain ''build''" "plain ''deps''" "plain ''install''"
    by (simp_all add: plain_def)
  have db: "map_of c ''build_dir'' = None \<longrightarrow> b = os_path_join r [''build'']"
    using abspath_join_exact [OF qr(1) plain(1), of cb] b qr(2) by (simp add: dict_get_def)
  have dd: "map_of c ''deps_dir'' = None \<longrightarrow> d = os_path_join b [''deps'']"
    using abspath_join_exact [OF qb(1) plain(2), of cd] d qb(2) by (simp add: dict_get_def)
  have di: "map_of c ''install_dir'' = None \<longrightarrow> i = os_path_join b [''install'']"
    using abspath_join_exact [OF qb(1) plain(3), of ci] i qb(2) by (simp add: dict_get_def)
  have ab: "os_path_isabs b" "os_path_isabs d" "os_path_isabs i"
    using abspath_isabs abs b d i by simp_all
  from envs have e2: "filter is_publish envs = []"
    by (auto simp add: filter_empty_conv)
  have pub: "filter is_publish tr = [Publish ''root_dir'' r, Publish ''build_dir'' b,
          Publish ''deps_dir'' d, Publish ''install_dir'' i]"
    by (subst tr, subst pre) (simp add: quiet_publish [OF q] e2)
  have mv: "map_of (variables e) ''build_dir'' = Some b" "map_of (variables e) ''deps_dir'' = Some d"
    "map_of (variables e) ''install_dir'' = Some i"
    by (simp_all add: vars)
  show ?thesis
    by (intro exI conjI) (fact c dirs db dd di ab pub mv)+
qed

lemma cwd_after_abs: "os_path_isabs c \<Longrightarrow> os_path_isabs (cwd_after c h)"
  by (induction c h rule: cwd_after.induct) (simp_all add: abspath_isabs)

lemma demo_world_abs: "\<forall>h. os_path_isabs (os_getcwd demo_world h)"
proof -
  have "os_path_isabs ''/work''" by (simp add: os_path_isabs_def startswith_def)
  then show ?thesis by (simp add: demo_world_fields cwd_after_abs)
qed

theorem build_dir_recreated_once_witness:
  "filter is_build_dir_op (snd (Env_init demo_world (request (Some ''libs/foo''))))
     = [ShellRm ''/work/foo/build'', ShellMkdir ''/work/foo/build'']
   \<and> last (filter is_publish (snd (Env_init demo_world (request (Some ''libs/foo'')))))
     = Publish ''install_dir'' ''/work/foo/build/install''"
  using build_dir_recreated_once [OF demo_run]
  by (simp add: nothing_to_build_def demo_run)

theorem directory_defaults_witness:
  "build_dir (projr (fst (Env_init demo_world (request (Some ''libs/foo''))))) = Some ''/work/foo/build''
   \<and> deps_dir (projr (fst (Env_init demo_world (request (Some ''libs/foo''))))) = Some ''/work/foo/build/deps''
   \<and> install_dir (projr (fst (Env_init demo_world (request (Some ''libs/foo''))))) = Some ''/work/foo/build/install''"
  using directory_defaults [OF demo_run _ demo_world_abs]
  by (simp add: nothing_to_build_def demo_run)

lemma Env_configure_Inl:
  assumes "Env_configure w p s = (Inl err, tr')"
  shows "filter is_build_dir_op tr' = filter is_build_dir_op (snd s)"
proof -
  from assms have "tr' = snd s \<or> (\<exists>v. tr' = snd s @ [UseVariant v])
        \<or> (\<exists>v sp cli. tr' = snd s @ [UseVariant v, GetConfig sp cli])"
    by (auto simp add: Env_configure_def emit_def Let_def split: option.splits)
  then show ?thesis by (elim disjE exE) simp_all
qed

text \<open>A constructor that raises has removed and created no directory.\<close>

lemma Env_init_raises_untouched:
  assumes "fst (Env_init w cfg) = Inl err"
  shows "filter is_build_dir_op (snd (Env_init w cfg)) = []"
proof -
  obtain r tr0 where res: "resolution w cfg = (r, tr0)" by (cases "resolution w cfg")
  from resolution_quiet [of w cfg] res have q: "filter is_build_dir_op tr0 = []"
    by (simp add: quiet_build_dir)
  show ?thesis
  proof (cases r)
    case (Inl e)
    with res q show ?thesis by (simp add: Env_init_resolution)
  next
    case (Inr e0)
    show ?thesis
    proof (cases "nothing_to_build e0")
      case True
      with res Inr q show ?thesis by (simp add: Env_init_resolution)
    next
      case False
      with res Inr have i: "Env_init w cfg = Env_configure w (the (project e0)) (e0, tr0)"
        by (simp add: Env_init_resolution)
      with assms have "Env_configure w (the (project e0)) (e0, tr0)
          = (Inl err, snd (Env_configure w (the (project e0)) (e0, tr0)))"
        by (simp add: prod_eq_iff)
      from Env_configure_Inl [OF this] q i show ?thesis by simp
    qed
  qed
qed

section \<open>Attributes the constructor needs\<close>




lemma local_world_fields:
  "os_environ local_world = (\<lambda>k. None)"
  "check_output local_world = None"
  "sys_platform local_world = ''linux''"
  "os_getcwd local_world = cwd_after ''/work''"
  "os_path_exists local_world = (\<lambda>tr p. True)"
  "Shell_cwd local_world = cwd_after ''/work''"
  "Project_default_project local_world = (\<lambda>tr. None)"
  "Project_find_project local_world =
     (\<lambda>tr name hints. \<lparr>p_name = name, p_path = Some name, p_resolved = True\<rparr>)"
  "DownloadSource_run local_world = (\<lambda>tr p b d. None)"
  "Project_get_config local_world = (\<lambda>tr p sp cli. [])"
  by (simp_all add: local_world_def demo_world_def)

lemma local_branch: "get_git_branch local_world = ''main''"
  by (simp add: get_git_branch_def Env_get_git_branch_def probe_or_main_def local_world_fields)

lemma local_resolution:
  assumes "cfg_dryrun cfg = None" "cfg_branch cfg = None" "cfg_shell cfg = None"
    and "cfg_args cfg = Some a" and "args_project a = Some (Some ''foo'')"
  shows "resolution local_world cfg =
     (Inr \<lparr>dryrun = False, variables = [], branch = ''main'', shell = Shell False,
       launch_dir = ''/work'',
       project = Some \<lparr>p_name = ''foo'', p_path = Some ''foo'', p_resolved = True\<rparr>,
       args = Some a, variant = cfg_variant cfg, spec = cfg_spec cfg, config = None,
       root_dir = None, build_dir = None, deps_dir = None, install_dir = None\<rparr>,
      (case cfg_project cfg of
         None \<Rightarrow> [ShellNew False, ShellCwd, SetSearchDirs [''/work''], DefaultProject]
       | Some p \<Rightarrow> [ShellNew False, ShellCwd, SetSearchDirs [''/work'']])
      @ [FindProject ''foo'' []])"
  using assms
  by (simp add: resolution_def Env_setup_def Env_locate_def Env_find_def Let_def emit_def
      project_hints_def project_bare_name_def local_branch local_world_fields demo_paths
      split: option.splits)


section \<open>Lookups\<close>

lemma not_lookup_not_default: "filter is_lookup tr = [] \<Longrightarrow> DefaultProject \<notin> set tr"
  by (auto simp add: filter_empty_conv)

lemma Env_find_first_call:
  "\<exists>rest. snd (Env_find w n s) =
       snd s @ FindProject (project_bare_name n) (project_hints (os_getcwd w (snd s)) n) # rest
     \<and> DefaultProject \<notin> set rest"
  by (simp add: Env_find_def Let_def emit_def split: option.splits)

lemma Env_find_project:
  assumes "Env_find w n s = (Inr e, tr)"
  shows "\<exists>tr' n' h. project e = Some (Project_find_project w tr' n' h)"
proof -
  define hints where "hints = project_hints (os_getcwd w (snd s)) n"
  define found where "found = Project_find_project w (snd s) (project_bare_name n) hints"
  define tr2 where "tr2 = snd s @ [FindProject (project_bare_name n) hints,
     Download found (branch (fst s)) ''.'']"
  define found' where
    "found' = Project_find_project w tr2 (p_name found) [os_path_abspath (os_getcwd w tr2) ''.'']"
  from assms have "project e = Some found \<or> project e = Some found'"
    unfolding found'_def tr2_def found_def hints_def
    by (auto simp add: Env_find_def Let_def emit_def split: option.splits if_splits)
  then show ?thesis
    unfolding found'_def found_def by blast
qed

lemma Env_configure_extends:
  "\<exists>rest. snd (Env_configure w p s) = snd s @ rest \<and> filter is_lookup rest = []"
proof -
  obtain r tr' where c: "Env_configure w p s = (r, tr')" by (cases "Env_configure w p s")
  show ?thesis
  proof (cases r)
    case (Inl err)
    with c have "tr' = snd s \<or> (\<exists>v. tr' = snd s @ [UseVariant v])
        \<or> (\<exists>v sp cli. tr' = snd s @ [UseVariant v, GetConfig sp cli])"
      by (auto simp add: Env_configure_def emit_def Let_def split: option.splits)
    then have "\<exists>rest. tr' = snd s @ rest \<and> filter is_lookup rest = []"
      by (elim disjE exE) simp_all
    with c show ?thesis by simp
  next
    case (Inr e')
    from Env_configure_Inr [OF c [unfolded Inr]] obtain v sp cli path cf where
      lay: "Env_layout w path cf (fst s\<lparr>config := Some cf\<rparr>, snd s @ [UseVariant v, GetConfig sp cli]) = (e', tr')"
      by blast
    from Env_layout_shape [OF lay] obtain r b d i envs pre where
      pre: "pre = (snd s @ [UseVariant v, GetConfig sp cli]) @ [Publish ''root_dir'' r, ShellCd r,
          Publish ''build_dir'' b, Publish ''deps_dir'' d, Publish ''install_dir'' i] @ envs
          @ [ExtendSearchDirs [b, r, d]]"
      and tr: "tr' = pre @ (if os_path_exists w pre b then [ShellRm b] else []) @ [ShellMkdir b]"
      and envs: "filter (\<lambda>ev. is_publish ev \<or> is_build_dir_op ev \<or> is_lookup ev) envs = []"
      by (simp only: fst_conv snd_conv) blast
    from envs have e3: "filter is_lookup envs = []" by (auto simp add: filter_empty_conv)
    let ?rest = "[UseVariant v, GetConfig sp cli, Publish ''root_dir'' r, ShellCd r,
          Publish ''build_dir'' b, Publish ''deps_dir'' d, Publish ''install_dir'' i] @ envs
          @ [ExtendSearchDirs [b, r, d]] @ (if os_path_exists w pre b then [ShellRm b] else []) @ [ShellMkdir b]"
    have "tr' = snd s @ ?rest" using tr pre by simp
    moreover have "filter is_lookup ?rest = []" using e3 by simp
    ultimately show ?thesis using c by (metis snd_conv)
  qed
qed

lemma Env_configure_project:
  assumes "Env_configure w p s = (Inr e', tr')"
  shows "project e' = project (fst s)"
proof -
  from Env_configure_Inr [OF assms] obtain v sp cli path cf where
    lay: "Env_layout w path cf (fst s\<lparr>config := Some cf\<rparr>, snd s @ [UseVariant v, GetConfig sp cli]) = (e', tr')"
    by blast
  from Env_layout_shape [OF lay] obtain r b d i where
    "e' = (fst s\<lparr>config := Some cf\<rparr>)\<lparr>root_dir := Some r, build_dir := Some b, deps_dir := Some d,
          install_dir := Some i,
          variables := AList.update ''install_dir'' i (AList.update ''deps_dir'' d
             (AList.update ''build_dir'' b (AList.update ''root_dir'' r (variables (fst s\<lparr>config := Some cf\<rparr>)))))\<rparr>"
    by (simp only: fst_conv snd_conv) blast
  then show ?thesis by simp
qed

lemma Env_init_extends:
  "\<exists>rest. snd (Env_init w cfg) = snd (resolution w cfg) @ rest \<and> filter is_lookup rest = []"
proof -
  obtain r tr0 where res: "resolution w cfg = (r, tr0)" by (cases "resolution w cfg")
  show ?thesis
  proof (cases r)
    case (Inl err)
    with res show ?thesis by (simp add: Env_init_resolution)
  next
    case (Inr e0)
    show ?thesis
    proof (cases "nothing_to_build e0")
      case True
      with res Inr show ?thesis by (simp add: Env_init_resolution)
    next
      case False
      with res Inr have "Env_init w cfg = Env_configure w (the (project e0)) (e0, tr0)"
        by (simp add: Env_init_resolution)
      with Env_configure_extends [of w "the (project e0)" "(e0, tr0)"] res show ?thesis by simp
    qed
  qed
qed

lemma Env_init_project:
  assumes "Env_init w cfg = (Inr e, tr)"
  shows "\<exists>e0 tr0. resolution w cfg = (Inr e0, tr0) \<and> project e = project e0"
proof -
  obtain r tr0 where res: "resolution w cfg = (r, tr0)" by (cases "resolution w cfg")
  show ?thesis
  proof (cases r)
    case (Inl err)
    with res assms show ?thesis by (simp add: Env_init_resolution)
  next
    case (Inr e0)
    show ?thesis
    proof (cases "nothing_to_build e0")
      case True
      with res Inr assms show ?thesis by (simp add: Env_init_resolution)
    next
      case False
      with res Inr assms have "Env_configure w (the (project e0)) (e0, tr0) = (Inr e, tr)"
        by (simp add: Env_init_resolution)
      from Env_configure_project [OF this] res Inr show ?thesis by simp
    qed
  qed
qed

lemma request_fields:
  "cfg_dryrun (request n) = None"
  "cfg_branch (request n) = None"
  "cfg_shell (request n) = None"
  "cfg_project (request n) = None"
  "cfg_args (request n) = Some \<lparr>args_project = Some n, args_cli_config = Some []\<rparr>"
  "cfg_variant (request n) = Some None"
  "cfg_spec (request n) = Some ''spec''"
  by (simp_all add: request_def)

lemma stuck_world_fields:
  "os_environ stuck_world = (\<lambda>k. None)"
  "check_output stuck_world = None"
  "os_getcwd stuck_world = cwd_after ''/work''"
  "Shell_cwd stuck_world = cwd_after ''/work''"
  "Project_default_project stuck_world = (\<lambda>tr. None)"
  "Project_find_project stuck_world =
     (\<lambda>tr name hints. \<lparr>p_name = name, p_path = None, p_resolved = False\<rparr>)"
  "DownloadSource_run stuck_world = (\<lambda>tr p b d. None)"
  by (simp_all add: stuck_world_def demo_world_def)

lemma stuck_branch: "get_git_branch stuck_world = ''main''"
  by (simp add: get_git_branch_def Env_get_git_branch_def probe_or_main_def stuck_world_fields)

lemma stuck_setup:
  "Env_setup stuck_world (request n) =
     (\<lparr>dryrun = False, variables = [], branch = ''main'', shell = Shell False,
       launch_dir = ''/work'', project = None,
       args = Some \<lparr>args_project = Some n, args_cli_config = Some []\<rparr>,
       variant = Some None, spec = Some ''spec'', config = None, root_dir = None,
       build_dir = None, deps_dir = None, install_dir = None\<rparr>,
      [ShellNew False, ShellCwd, SetSearchDirs [''/work''], DefaultProject])"
  by (simp add: Env_setup_def Let_def request_def stuck_branch stuck_world_fields demo_paths)

text \<open>
  C1, as the code has it. A requested name whose lookup gives a project without a path,
  a download that returns, and a second lookup (hint: the absolute path of \<open>.\<close>) whose
  project is not resolved: the \<open>assert\<close> of line 75 fails, and the constructor ends
  with \<open>AssertionError\<close> after the second lookup, with no call of lines 83 to 123.
\<close>

theorem download_then_unresolved_asserts:
  assumes "cfg_args cfg = Some a" and "args_project a = Some (Some name)" and "name \<noteq> []"
    and "s = Env_setup w cfg"
    and "hints = project_hints (os_getcwd w (snd s)) name"
    and "found = Project_find_project w (snd s) (project_bare_name name) hints"
    and "\<not> truthy (p_path found)"
    and "tr1 = snd s @ [FindProject (project_bare_name name) hints]"
    and "DownloadSource_run w tr1 found (branch (fst s)) ''.'' = None"
    and "tr2 = tr1 @ [Download found (branch (fst s)) ''.'']"
    and "hint = os_path_abspath (os_getcwd w tr2) ''.''"
    and "\<not> p_resolved (Project_find_project w tr2 (p_name found) [hint])"
  shows "Env_init w cfg = (Inl AssertionError, tr2 @ [FindProject (p_name found) [hint]])
     \<and> filter after_resolution (snd (Env_init w cfg)) = []"
proof -
  have "Env_find w name s = (Inl AssertionError, tr2 @ [FindProject (p_name found) [hint]])"
    using assms(5-12) by (simp add: Env_find_def Let_def emit_def)
  then have r: "resolution w cfg = (Inl AssertionError, tr2 @ [FindProject (p_name found) [hint]])"
    using assms(1-4) by (simp add: resolution_def Env_locate_def Env_setup_attrs)
  then have i: "Env_init w cfg = (Inl AssertionError, tr2 @ [FindProject (p_name found) [hint]])"
    by (simp add: Env_init_resolution)
  from resolution_quiet [of w cfg] r i show ?thesis by simp
qed

lemma stuck_resolution:
  "resolution stuck_world (request (Some ''foo'')) =
     (Inl AssertionError,
      [ShellNew False, ShellCwd, SetSearchDirs [''/work''], DefaultProject,
       FindProject ''foo'' [],
       Download \<lparr>p_name = ''foo'', p_path = None, p_resolved = False\<rparr> ''main'' ''.'',
       FindProject ''foo'' [''/work'']])"
  by (simp add: resolution_def stuck_setup Env_locate_def Env_find_def Let_def emit_def
      project_hints_def project_bare_name_def stuck_world_fields demo_paths)

theorem download_then_unresolved_asserts_witness:
  "Env_init stuck_world (request (Some ''foo'')) =
     (Inl AssertionError,
      [ShellNew False, ShellCwd, SetSearchDirs [''/work''], DefaultProject,
       FindProject ''foo'' [],
       Download \<lparr>p_name = ''foo'', p_path = None, p_resolved = False\<rparr> ''main'' ''.'',
       FindProject ''foo'' [''/work'']])"
  using download_then_unresolved_asserts [where w = stuck_world and cfg = "request (Some ''foo'')"
      and a = "\<lparr>args_project = Some (Some ''foo''), args_cli_config = Some []\<rparr>" and name = "''foo''",
      OF _ _ _ refl refl refl _ refl _ refl refl]
  by (simp add: stuck_setup stuck_world_fields project_hints_def project_bare_name_def demo_paths
      request_fields)

text \<open>
  C1 as stated fails: on the host where no lookup finds the project, the error is
  \<open>AssertionError\<close>, not \<open>ConfigurationError\<close>.
\<close>

theorem download_then_unresolved_not_ConfigurationError:
  "p_path (Project_find_project stuck_world
       [ShellNew False, ShellCwd, SetSearchDirs [''/work''], DefaultProject] ''foo'' []) = None
   \<and> DownloadSource_run stuck_world
       [ShellNew False, ShellCwd, SetSearchDirs [''/work''], DefaultProject, FindProject ''foo'' []]
       \<lparr>p_name = ''foo'', p_path = None, p_resolved = False\<rparr> ''main'' ''.'' = None
   \<and> \<not> p_resolved (Project_find_project stuck_world
       [ShellNew False, ShellCwd, SetSearchDirs [''/work''], DefaultProject, FindProject ''foo'' [],
        Download \<lparr>p_name = ''foo'', p_path = None, p_resolved = False\<rparr> ''main'' ''.'']
       ''foo'' [''/work''])
   \<and> fst (Env_init stuck_world (request (Some ''foo''))) = Inl AssertionError
   \<and> fst (Env_init stuck_world (request (Some ''foo''))) \<noteq> Inl ConfigurationError"
  by (simp add: Env_init_resolution stuck_resolution stuck_world_fields)

lemma str_split_length: "c \<in> set s \<Longrightarrow> 1 < length (str_split c s)"
proof (induction s)
  case Nil then show ?case by simp
next
  case (Cons x xs)
  have ne: "str_split c xs \<noteq> []" by (rule str_split_nonempty)
  show ?case
  proof (cases "x = c")
    case True
    with ne show ?thesis by (cases "str_split c xs") simp_all
  next
    case False
    with Cons show ?thesis by (cases "str_split c xs") auto
  qed
qed

lemma str_join_split: "str_join [c] (str_split c s) = s"
proof (induction s)
  case Nil then show ?case by simp
next
  case (Cons x xs)
  obtain y ys where sp: "str_split c xs = y # ys"
    using str_split_nonempty [of c xs] by (cases "str_split c xs") auto
  with Cons show ?case by (cases ys) auto
qed

lemma str_join_concat: "str_join sep (x # xs) = x @ concat (map (\<lambda>p. sep @ p) xs)"
  by (induction xs arbitrary: x) simp_all

lemma join_fold:
  "acc \<noteq> [] \<Longrightarrow> last acc \<noteq> CHR ''/'' \<Longrightarrow> \<forall>p \<in> set ps. p \<noteq> [] \<and> CHR ''/'' \<notin> set p
   \<Longrightarrow> foldl join_step acc ps = acc @ concat (map (\<lambda>p. ''/'' @ p) ps)"
proof (induction ps arbitrary: acc)
  case Nil then show ?case by simp
next
  case (Cons p ps)
  from Cons.prems have p: "p \<noteq> []" "CHR ''/'' \<notin> set p" by simp_all
  then have h: "\<not> startswith p ''/''" by (cases p) (auto simp add: startswith_def)
  from p have l: "last p \<noteq> CHR ''/''" using last_in_set [of p] by metis
  have step: "join_step acc p = acc @ ''/'' @ p"
    using Cons.prems(1,2) h by (simp add: join_step_def)
  have "foldl join_step (acc @ ''/'' @ p) ps = (acc @ ''/'' @ p) @ concat (map (\<lambda>p. ''/'' @ p) ps)"
    using Cons.prems(3) p l by (intro Cons.IH) simp_all
  with step show ?case by simp
qed

text \<open>Joining the segments of a name that has no empty segment gives the name back.\<close>

lemma join_split:
  assumes "[] \<notin> set (str_split CHR ''/'' name)"
  shows "os_path_join (hd (str_split CHR ''/'' name)) (tl (str_split CHR ''/'' name)) = name"
proof -
  obtain a ps where sp: "str_split CHR ''/'' name = a # ps"
    using str_split_nonempty [of "CHR ''/''" name] by (cases "str_split CHR ''/'' name") auto
  have free: "\<forall>x \<in> set (a # ps). x \<noteq> [] \<and> CHR ''/'' \<notin> set x"
    using assms str_split_free [of _ "CHR ''/''" name] unfolding sp by metis
  then have a0: "a \<noteq> []" "CHR ''/'' \<notin> set a" by simp_all
  then have a: "a \<noteq> []" "last a \<noteq> CHR ''/''"
    using last_in_set [of a] by metis+
  have "os_path_join a ps = a @ concat (map (\<lambda>p. ''/'' @ p) ps)"
    unfolding os_path_join_def using a free by (intro join_fold) simp_all
  also have "\<dots> = str_join ''/'' (a # ps)" by (simp add: str_join_concat)
  also have "\<dots> = name" using str_join_split [of "CHR ''/''" name] by (simp add: sp)
  finally show ?thesis by (simp add: sp)
qed

text \<open>
  The first lookup of a requested name with a \<open>/\<close>, in the terms of lines 60 to 64: the
  name is the last segment, the hint is the absolute path of \<open>os.path.join(*parts)\<close>.
\<close>

lemma requested_path_first_lookup:
  assumes "cfg_args cfg = Some a" and "args_project a = Some (Some name)"
    and "CHR ''/'' \<in> set name" and "parts = str_split CHR ''/'' name"
  shows "(\<exists>rest. snd (Env_init w cfg) =
            snd (Env_setup w cfg)
            @ FindProject (last parts)
                [os_path_abspath (os_getcwd w (snd (Env_setup w cfg))) (os_path_join (hd parts) (tl parts))]
            # rest)
     \<and> CHR ''/'' \<notin> set (last parts)"
proof -
  from assms(3) have ne: "name \<noteq> []" by auto
  have len: "1 < length parts"
    unfolding assms(4) using assms(3) by (rule str_split_length)
  have res: "resolution w cfg = Env_find w name (Env_setup w cfg)"
    using assms(1,2) ne by (simp add: resolution_def Env_locate_def Env_setup_attrs)
  from Env_find_first_call [of w name "Env_setup w cfg"] obtain r1 where
    "snd (resolution w cfg) = snd (Env_setup w cfg)
       @ FindProject (project_bare_name name) (project_hints (os_getcwd w (snd (Env_setup w cfg))) name) # r1"
    unfolding res by blast
  moreover from Env_init_extends [of w cfg] obtain r2 where
    "snd (Env_init w cfg) = snd (resolution w cfg) @ r2" by blast
  ultimately have "snd (Env_init w cfg) = snd (Env_setup w cfg)
       @ FindProject (project_bare_name name) (project_hints (os_getcwd w (snd (Env_setup w cfg))) name)
       # (r1 @ r2)" by simp
  then have 1: "\<exists>rest. snd (Env_init w cfg) =
            snd (Env_setup w cfg)
            @ FindProject (last parts)
                [os_path_abspath (os_getcwd w (snd (Env_setup w cfg))) (os_path_join (hd parts) (tl parts))]
            # rest"
    using len assms(4) by (simp add: project_bare_name_def project_hints_def Let_def)
  have "parts \<noteq> []" using len by auto
  then have "last parts \<in> set parts" by simp
  then have 2: "CHR ''/'' \<notin> set (last parts)"
    unfolding assms(4) by (rule str_split_free)
  from 1 2 show ?thesis by blast
qed

text \<open>
  C2, as the code has it. For a requested name with a \<open>/\<close> and no empty segment (so a
  relative name, with no doubled and no trailing \<open>/\<close>), the first lookup after the
  setup is made with the last segment as the name, which has no \<open>/\<close>, and with one
  hint: the absolute path of the whole name.
\<close>

theorem requested_path_hint:
  assumes "cfg_args cfg = Some a" and "args_project a = Some (Some name)"
    and "CHR ''/'' \<in> set name" and "[] \<notin> set (str_split CHR ''/'' name)"
  shows "(\<exists>rest. snd (Env_init w cfg) =
            snd (Env_setup w cfg)
            @ FindProject (last (str_split CHR ''/'' name))
                [os_path_abspath (os_getcwd w (snd (Env_setup w cfg))) name]
            # rest)
     \<and> CHR ''/'' \<notin> set (last (str_split CHR ''/'' name))"
  using requested_path_first_lookup [OF assms(1-3) refl, of w] join_split [OF assms(4)]
  by simp

theorem requested_path_hint_witness:
  "take 5 (snd (Env_init demo_world (request (Some ''libs/foo'')))) =
     [ShellNew False, ShellCwd, SetSearchDirs [''/work''], DefaultProject,
      FindProject ''foo'' [''/work/libs/foo'']]"
proof -
  have sp: "str_split CHR ''/'' ''libs/foo'' = [''libs'', ''foo'']" by simp
  from requested_path_hint [where w = demo_world and cfg = "request (Some ''libs/foo'')"
      and name = "''libs/foo''"
      and a = "\<lparr>args_project = Some (Some ''libs/foo''), args_cli_config = Some []\<rparr>"]
  obtain rest where
    "snd (Env_init demo_world (request (Some ''libs/foo''))) =
       snd (Env_setup demo_world (request (Some ''libs/foo'')))
       @ FindProject ''foo''
          [os_path_abspath (os_getcwd demo_world (snd (Env_setup demo_world (request (Some ''libs/foo'')))))
             ''libs/foo''] # rest"
    by (auto simp add: request_fields sp)
  moreover have "os_path_abspath ''/work'' ''libs/foo'' = ''/work/libs/foo''"
    by (simp add: path_defs)
  ultimately show ?thesis
    by (simp add: demo_setup demo_world_fields)
qed

text \<open>
  C2 as stated fails: for \<open>libs/foo\<close> in \<open>/work\<close> the hint is \<open>/work/libs/foo\<close>; the
  absolute path of the directory portion, \<open>/work/libs\<close>, is the hint of no lookup.
\<close>

theorem requested_path_hint_is_whole_name:
  "snd (Env_init demo_world (request (Some ''libs/foo''))) ! 4 = FindProject ''foo'' [''/work/libs/foo'']
   \<and> os_path_abspath ''/work'' ''libs'' = ''/work/libs''
   \<and> FindProject ''foo'' [''/work/libs''] \<notin> set (snd (Env_init demo_world (request (Some ''libs/foo''))))"
  by (simp add: demo_run demo_paths)

lemma Env_setup_supplied:
  "cfg_project cfg = Some p \<Longrightarrow>
     filter is_lookup (snd (Env_setup w cfg)) = [] \<and> project (fst (Env_setup w cfg)) = Some p"
  by (simp add: Env_setup_def Let_def split: option.splits)

lemma Env_configure_succeeds:
  "variant (fst s) = Some v \<Longrightarrow> spec (fst s) = Some sp \<Longrightarrow> args (fst s) = Some a
   \<Longrightarrow> args_cli_config a = Some cli \<Longrightarrow> p_path p = Some path
   \<Longrightarrow> \<exists>e' tr'. Env_configure w p s = (Inr e', tr')"
  by (simp add: Env_configure_def Let_def)

lemma Env_find_calls:
  assumes "hints = project_hints (os_getcwd w (snd s)) n"
    and "found = Project_find_project w (snd s) (project_bare_name n) hints"
    and "tr1 = snd s @ [FindProject (project_bare_name n) hints]"
    and "tr2 = tr1 @ [Download found (branch (fst s)) ''.'']"
    and "hint = os_path_abspath (os_getcwd w tr2) ''.''"
    and "found' = Project_find_project w tr2 (p_name found) [hint]"
  shows "snd (Env_find w n s) =
           (if truthy (p_path found) then tr1
            else if DownloadSource_run w tr1 found (branch (fst s)) ''.'' = None
            then tr2 @ [FindProject (p_name found) [hint]]
            else tr2)"
  using assms by (simp add: Env_find_def Let_def emit_def split: option.splits)

lemma Env_find_result:
  assumes "hints = project_hints (os_getcwd w (snd s)) n"
    and "found = Project_find_project w (snd s) (project_bare_name n) hints"
    and "tr1 = snd s @ [FindProject (project_bare_name n) hints]"
    and "tr2 = tr1 @ [Download found (branch (fst s)) ''.'']"
    and "hint = os_path_abspath (os_getcwd w tr2) ''.''"
    and "found' = Project_find_project w tr2 (p_name found) [hint]"
    and "Env_find w n s = (Inr e, tr)"
  shows "project e = Some (if truthy (p_path found) then found else found')"
  using assms by (auto simp add: Env_find_def Let_def emit_def split: option.splits if_splits)

lemma Env_find_raises:
  assumes "hints = project_hints (os_getcwd w (snd s)) n"
    and "found = Project_find_project w (snd s) (project_bare_name n) hints"
    and "tr1 = snd s @ [FindProject (project_bare_name n) hints]"
    and "tr2 = tr1 @ [Download found (branch (fst s)) ''.'']"
    and "hint = os_path_abspath (os_getcwd w tr2) ''.''"
    and "found' = Project_find_project w tr2 (p_name found) [hint]"
    and "\<not> truthy (p_path found)"
  shows "fst (Env_find w n s) =
           (case DownloadSource_run w tr1 found (branch (fst s)) ''.'' of
              Some msg \<Rightarrow> Inl (CollaboratorError msg)
            | None \<Rightarrow>
                if p_resolved found' then Inr (fst s\<lparr>project := Some found'\<rparr>)
                else Inl AssertionError)"
  using assms by (simp add: Env_find_def Let_def emit_def split: option.splits)

text \<open>
  C3, as the code has it. With a project object in the configuration,
  \<open>Project.default_project()\<close> is never called. When \<open>args.project\<close> is \<open>None\<close> or
  empty, there is no lookup and no download at all, and a constructor that returns has
  the supplied project. When \<open>args.project\<close> is a name, the supplied object plays no part:
  the lookup for the name is made; if its project has a path, that is the only lookup call
  and that project is the constructor's; if it has none, \<open>DownloadSource\<close> is run on it
  with the branch and \<open>.\<close>, and, when that returns, \<open>find_project\<close> is called again with
  the project's name and the absolute path of \<open>.\<close>, and a constructor that returns has the
  project of this second lookup. A download that raises ends the constructor with its
  exception, and a second lookup whose project is not resolved with \<open>AssertionError\<close>.
\<close>

theorem supplied_project_lookup:
  assumes "cfg_project cfg = Some p"
    and "s = Env_setup w cfg"
    and "hints = project_hints (os_getcwd w (snd s)) name"
    and "found = Project_find_project w (snd s) (project_bare_name name) hints"
    and "tr1 = snd s @ [FindProject (project_bare_name name) hints]"
    and "tr2 = tr1 @ [Download found (branch (fst s)) ''.'']"
    and "hint = os_path_abspath (os_getcwd w tr2) ''.''"
    and "found' = Project_find_project w tr2 (p_name found) [hint]"
  shows "DefaultProject \<notin> set (snd (Env_init w cfg))
   \<and> (cfg_args cfg = Some a \<and> args_project a = Some n \<and> \<not> truthy n \<longrightarrow>
        filter is_lookup (snd (Env_init w cfg)) = []
        \<and> (\<forall>e. fst (Env_init w cfg) = Inr e \<longrightarrow> project e = Some p))
   \<and> (cfg_args cfg = Some a \<and> args_project a = Some (Some name) \<and> name \<noteq> [] \<longrightarrow>
        filter is_lookup (snd (Env_init w cfg)) =
          (if truthy (p_path found) then [FindProject (project_bare_name name) hints]
           else if DownloadSource_run w tr1 found (branch (fst s)) ''.'' = None
           then [FindProject (project_bare_name name) hints,
                 Download found (branch (fst s)) ''.'',
                 FindProject (p_name found) [hint]]
           else [FindProject (project_bare_name name) hints,
                 Download found (branch (fst s)) ''.''])
        \<and> (\<forall>e. fst (Env_init w cfg) = Inr e \<longrightarrow>
             project e = Some (if truthy (p_path found) then found else found'))
        \<and> (\<not> truthy (p_path found)
             \<and> DownloadSource_run w tr1 found (branch (fst s)) ''.'' = Some msg \<longrightarrow>
             fst (Env_init w cfg) = Inl (CollaboratorError msg))
        \<and> (\<not> truthy (p_path found)
             \<and> DownloadSource_run w tr1 found (branch (fst s)) ''.'' = None
             \<and> \<not> p_resolved found' \<longrightarrow>
             fst (Env_init w cfg) = Inl AssertionError))"
proof -
  from Env_setup_supplied [OF assms(1), of w] assms(2) have
    s0: "filter is_lookup (snd s) = []" and p0: "project (fst s) = Some p" by simp_all
  from Env_init_extends [of w cfg] obtain r2 where
    ext: "snd (Env_init w cfg) = snd (resolution w cfg) @ r2" and r2: "filter is_lookup r2 = []"
    by blast
  have 1: "DefaultProject \<notin> set (snd (Env_init w cfg))"
  proof (cases "\<exists>a' n'. cfg_args cfg = Some a' \<and> args_project a' = Some n' \<and> truthy n'")
    case True
    then obtain a' n' where "cfg_args cfg = Some a'" "args_project a' = Some n'" "truthy n'"
      by blast
    then obtain name' where "resolution w cfg = Env_find w name' s"
      by (simp add: resolution_def Env_locate_def Env_setup_attrs assms(2))
    with Env_find_first_call [of w name' s] obtain r1 where
      "snd (resolution w cfg) = snd s @ FindProject (project_bare_name name')
          (project_hints (os_getcwd w (snd s)) name') # r1"
      and "DefaultProject \<notin> set r1" by auto
    with ext not_lookup_not_default [OF s0] not_lookup_not_default [OF r2] show ?thesis by simp
  next
    case False
    then have "snd (resolution w cfg) = snd s"
      by (auto simp add: resolution_def Env_locate_def Env_setup_attrs assms(2)
          split: option.splits)
    with ext not_lookup_not_default [OF s0] not_lookup_not_default [OF r2] show ?thesis by simp
  qed
  have 2: "cfg_args cfg = Some a \<and> args_project a = Some n \<and> \<not> truthy n \<longrightarrow>
        filter is_lookup (snd (Env_init w cfg)) = []
        \<and> (\<forall>e. fst (Env_init w cfg) = Inr e \<longrightarrow> project e = Some p)"
  proof (intro impI)
    assume h: "cfg_args cfg = Some a \<and> args_project a = Some n \<and> \<not> truthy n"
    then have res: "resolution w cfg = (Inr (fst s), snd s)"
      by (simp add: resolution_def Env_locate_def Env_setup_attrs assms(2))
    have a: "filter is_lookup (snd (Env_init w cfg)) = []"
      using ext r2 s0 res by simp
    have b: "\<forall>e. fst (Env_init w cfg) = Inr e \<longrightarrow> project e = Some p"
    proof (intro allI impI)
      fix e assume "fst (Env_init w cfg) = Inr e"
      then have "Env_init w cfg = (Inr e, snd (Env_init w cfg))" by (simp add: prod_eq_iff)
      from Env_init_project [OF this] res p0 show "project e = Some p" by simp
    qed
    from a b show "filter is_lookup (snd (Env_init w cfg)) = []
        \<and> (\<forall>e. fst (Env_init w cfg) = Inr e \<longrightarrow> project e = Some p)" by simp
  qed
  have 3: "cfg_args cfg = Some a \<and> args_project a = Some (Some name) \<and> name \<noteq> [] \<longrightarrow>
        filter is_lookup (snd (Env_init w cfg)) =
          (if truthy (p_path found) then [FindProject (project_bare_name name) hints]
           else if DownloadSource_run w tr1 found (branch (fst s)) ''.'' = None
           then [FindProject (project_bare_name name) hints,
                 Download found (branch (fst s)) ''.'',
                 FindProject (p_name found) [hint]]
           else [FindProject (project_bare_name name) hints,
                 Download found (branch (fst s)) ''.''])
        \<and> (\<forall>e. fst (Env_init w cfg) = Inr e \<longrightarrow>
             project e = Some (if truthy (p_path found) then found else found'))
        \<and> (\<not> truthy (p_path found)
             \<and> DownloadSource_run w tr1 found (branch (fst s)) ''.'' = Some msg \<longrightarrow>
             fst (Env_init w cfg) = Inl (CollaboratorError msg))
        \<and> (\<not> truthy (p_path found)
             \<and> DownloadSource_run w tr1 found (branch (fst s)) ''.'' = None
             \<and> \<not> p_resolved found' \<longrightarrow>
             fst (Env_init w cfg) = Inl AssertionError)"
  proof (intro impI)
    assume h: "cfg_args cfg = Some a \<and> args_project a = Some (Some name) \<and> name \<noteq> []"
    then have res: "resolution w cfg = Env_find w name s"
      by (simp add: resolution_def Env_locate_def Env_setup_attrs assms(2))
    have calls: "snd (resolution w cfg) =
           (if truthy (p_path found) then tr1
            else if DownloadSource_run w tr1 found (branch (fst s)) ''.'' = None
            then tr2 @ [FindProject (p_name found) [hint]]
            else tr2)"
      unfolding res using assms(3-8) by (rule Env_find_calls)
    have f1: "filter is_lookup tr1 = [FindProject (project_bare_name name) hints]"
      using s0 by (simp add: assms(5))
    have f2: "filter is_lookup tr2 =
        [FindProject (project_bare_name name) hints, Download found (branch (fst s)) ''.'']"
      using f1 by (simp add: assms(6))
    have "filter is_lookup (snd (Env_init w cfg)) = filter is_lookup (snd (resolution w cfg))"
      using ext r2 by simp
    then have a: "filter is_lookup (snd (Env_init w cfg)) =
          (if truthy (p_path found) then [FindProject (project_bare_name name) hints]
           else if DownloadSource_run w tr1 found (branch (fst s)) ''.'' = None
           then [FindProject (project_bare_name name) hints,
                 Download found (branch (fst s)) ''.'',
                 FindProject (p_name found) [hint]]
           else [FindProject (project_bare_name name) hints,
                 Download found (branch (fst s)) ''.''])"
      unfolding calls using f1 f2 by simp
    have b: "\<forall>e. fst (Env_init w cfg) = Inr e \<longrightarrow>
             project e = Some (if truthy (p_path found) then found else found')"
    proof (intro allI impI)
      fix e assume "fst (Env_init w cfg) = Inr e"
      then have "Env_init w cfg = (Inr e, snd (Env_init w cfg))" by (simp add: prod_eq_iff)
      from Env_init_project [OF this] obtain e0 tr0 where
        r: "resolution w cfg = (Inr e0, tr0)" and pe: "project e = project e0" by blast
      from r res have "Env_find w name s = (Inr e0, tr0)" by simp
      from Env_find_result [OF assms(3-8) this] pe
      show "project e = Some (if truthy (p_path found) then found else found')" by simp
    qed
    have c: "\<not> truthy (p_path found)
             \<and> DownloadSource_run w tr1 found (branch (fst s)) ''.'' = Some msg \<longrightarrow>
             fst (Env_init w cfg) = Inl (CollaboratorError msg)"
    proof (intro impI)
      assume k: "\<not> truthy (p_path found)
             \<and> DownloadSource_run w tr1 found (branch (fst s)) ''.'' = Some msg"
      then have "\<not> truthy (p_path found)" by simp
      from Env_find_raises [OF assms(3-8) this] k res
      have "fst (resolution w cfg) = Inl (CollaboratorError msg)" by simp
      then show "fst (Env_init w cfg) = Inl (CollaboratorError msg)"
        by (cases "resolution w cfg") (simp add: Env_init_resolution)
    qed
    have d: "\<not> truthy (p_path found)
             \<and> DownloadSource_run w tr1 found (branch (fst s)) ''.'' = None
             \<and> \<not> p_resolved found' \<longrightarrow>
             fst (Env_init w cfg) = Inl AssertionError"
    proof (intro impI)
      assume k: "\<not> truthy (p_path found)
             \<and> DownloadSource_run w tr1 found (branch (fst s)) ''.'' = None
             \<and> \<not> p_resolved found'"
      then have "\<not> truthy (p_path found)" by simp
      from Env_find_raises [OF assms(3-8) this] k res
      have "fst (resolution w cfg) = Inl AssertionError" by simp
      then show "fst (Env_init w cfg) = Inl AssertionError"
        by (cases "resolution w cfg") (simp add: Env_init_resolution)
    qed
    from a b c d show "filter is_lookup (snd (Env_init w cfg)) =
          (if truthy (p_path found) then [FindProject (project_bare_name name) hints]
           else if DownloadSource_run w tr1 found (branch (fst s)) ''.'' = None
           then [FindProject (project_bare_name name) hints,
                 Download found (branch (fst s)) ''.'',
                 FindProject (p_name found) [hint]]
           else [FindProject (project_bare_name name) hints,
                 Download found (branch (fst s)) ''.''])
        \<and> (\<forall>e. fst (Env_init w cfg) = Inr e \<longrightarrow>
             project e = Some (if truthy (p_path found) then found else found'))
        \<and> (\<not> truthy (p_path found)
             \<and> DownloadSource_run w tr1 found (branch (fst s)) ''.'' = Some msg \<longrightarrow>
             fst (Env_init w cfg) = Inl (CollaboratorError msg))
        \<and> (\<not> truthy (p_path found)
             \<and> DownloadSource_run w tr1 found (branch (fst s)) ''.'' = None
             \<and> \<not> p_resolved found' \<longrightarrow>
             fst (Env_init w cfg) = Inl AssertionError)" by simp
  qed
  from 1 2 3 show ?thesis by simp
qed

lemma local_idle_resolution:
  assumes "cfg_dryrun cfg = None" "cfg_branch cfg = None" "cfg_shell cfg = None"
    and "cfg_args cfg = Some a" and "args_project a = Some None" and "cfg_project cfg = Some p"
  shows "resolution local_world cfg =
     (Inr \<lparr>dryrun = False, variables = [], branch = ''main'', shell = Shell False,
       launch_dir = ''/work'', project = Some p,
       args = Some a, variant = cfg_variant cfg, spec = cfg_spec cfg, config = None,
       root_dir = None, build_dir = None, deps_dir = None, install_dir = None\<rparr>,
      [ShellNew False, ShellCwd, SetSearchDirs [''/work'']])"
  using assms
  by (simp add: resolution_def Env_setup_def Env_locate_def Let_def
      local_branch local_world_fields demo_paths)

lemma Env_init_succeeds:
  assumes "resolution w cfg = (Inr e0, tr0)" and "project e0 = Some p" and "p_resolved p"
    and "p_path p = Some path" and "cfg_variant cfg = Some v" and "cfg_spec cfg = Some sp"
    and "cfg_args cfg = Some a" and "args_cli_config a = Some cli"
  shows "\<exists>e tr. Env_init w cfg = (Inr e, tr) \<and> project e = Some p"
proof -
  from resolution_env [OF assms(1)] assms(5-7) have
    "variant (fst (e0, tr0)) = Some v" "spec (fst (e0, tr0)) = Some sp" "args (fst (e0, tr0)) = Some a"
    by simp_all
  from Env_configure_succeeds [OF this assms(8) assms(4), of w] obtain e tr where
    c: "Env_configure w p (e0, tr0) = (Inr e, tr)" by blast
  from assms(1-3) c have i: "Env_init w cfg = (Inr e, tr)"
    by (simp add: Env_init_resolution nothing_to_build_def)
  from Env_configure_project [OF c] assms(2) have "project e = Some p" by simp
  with i show ?thesis by blast
qed

text \<open>
  C3 as stated fails: with a project object supplied and \<open>args.project = 'foo'\<close>, the
  lookup for \<open>foo\<close> is made and its result, not the supplied object, is the project.
\<close>

theorem supplied_project_overridden_by_args:
  "cfg_project ((request (Some ''foo''))\<lparr>cfg_project := Some given_project\<rparr>) = Some given_project
   \<and> FindProject ''foo'' []
       \<in> set (snd (Env_init local_world ((request (Some ''foo''))\<lparr>cfg_project := Some given_project\<rparr>)))
   \<and> map_sum id project (fst (Env_init local_world ((request (Some ''foo''))\<lparr>cfg_project := Some given_project\<rparr>)))
       = Inr (Some \<lparr>p_name = ''foo'', p_path = Some ''foo'', p_resolved = True\<rparr>)
   \<and> given_project \<noteq> \<lparr>p_name = ''foo'', p_path = Some ''foo'', p_resolved = True\<rparr>"
proof -
  let ?cfg = "(request (Some ''foo''))\<lparr>cfg_project := Some given_project\<rparr>"
  let ?a = "\<lparr>args_project = Some (Some ''foo''), args_cli_config = Some []\<rparr>"
  let ?foo = "\<lparr>p_name = ''foo'', p_path = Some ''foo'', p_resolved = True\<rparr>"
  obtain e0 where res: "resolution local_world ?cfg =
      (Inr e0, [ShellNew False, ShellCwd, SetSearchDirs [''/work''], FindProject ''foo'' []])"
    and p0: "project e0 = Some ?foo"
    using local_resolution [of ?cfg ?a] by (simp add: request_def)
  from Env_init_succeeds [OF res p0, of "''foo''" None "''spec''" ?a "[]"] obtain e tr where
    i: "Env_init local_world ?cfg = (Inr e, tr)" and pe: "project e = Some ?foo"
    by (auto simp add: request_def)
  from Env_init_extends [of local_world ?cfg] res have
    "FindProject ''foo'' [] \<in> set (snd (Env_init local_world ?cfg))" by auto
  with i pe show ?thesis by (simp add: given_project_def request_def)
qed

lemma demo_supplied_setup:
  "Env_setup demo_world ((request n)\<lparr>cfg_project := Some q\<rparr>) =
     (\<lparr>dryrun = False, variables = [], branch = ''main'', shell = Shell False,
       launch_dir = ''/work'', project = Some q,
       args = Some \<lparr>args_project = Some n, args_cli_config = Some []\<rparr>,
       variant = Some None, spec = Some ''spec'', config = None, root_dir = None,
       build_dir = None, deps_dir = None, install_dir = None\<rparr>,
      [ShellNew False, ShellCwd, SetSearchDirs [''/work'']])"
  by (simp add: Env_setup_def Let_def request_def demo_branch demo_world_fields demo_paths)

lemma demo_supplied_resolution:
  "resolution demo_world ((request (Some ''foo''))\<lparr>cfg_project := Some q\<rparr>) =
     (Inr \<lparr>dryrun = False, variables = [], branch = ''main'', shell = Shell False,
       launch_dir = ''/work'',
       project = Some \<lparr>p_name = ''foo'', p_path = Some ''foo'', p_resolved = True\<rparr>,
       args = Some \<lparr>args_project = Some (Some ''foo''), args_cli_config = Some []\<rparr>,
       variant = Some None, spec = Some ''spec'', config = None, root_dir = None,
       build_dir = None, deps_dir = None, install_dir = None\<rparr>,
      [ShellNew False, ShellCwd, SetSearchDirs [''/work''],
       FindProject ''foo'' [],
       Download \<lparr>p_name = ''foo'', p_path = None, p_resolved = False\<rparr> ''main'' ''.'',
       FindProject ''foo'' [''/work'']])"
  by (simp add: resolution_def demo_supplied_setup Env_locate_def Env_find_def Let_def emit_def
      project_hints_def project_bare_name_def demo_world_fields demo_paths)

theorem supplied_project_lookup_witness:
  "filter is_lookup (snd (Env_init local_world ((request None)\<lparr>cfg_project := Some given_project\<rparr>))) = []
   \<and> map_sum id project (fst (Env_init local_world ((request None)\<lparr>cfg_project := Some given_project\<rparr>)))
       = Inr (Some given_project)
   \<and> filter is_lookup
       (snd (Env_init demo_world ((request (Some ''foo''))\<lparr>cfg_project := Some given_project\<rparr>)))
       = [FindProject ''foo'' [],
          Download \<lparr>p_name = ''foo'', p_path = None, p_resolved = False\<rparr> ''main'' ''.'',
          FindProject ''foo'' [''/work'']]
   \<and> map_sum id project
       (fst (Env_init demo_world ((request (Some ''foo''))\<lparr>cfg_project := Some given_project\<rparr>)))
       = Inr (Some \<lparr>p_name = ''foo'', p_path = Some ''foo'', p_resolved = True\<rparr>)
   \<and> DefaultProject
       \<notin> set (snd (Env_init demo_world ((request (Some ''foo''))\<lparr>cfg_project := Some given_project\<rparr>)))"
proof -
  let ?cfgA = "(request None)\<lparr>cfg_project := Some given_project\<rparr>"
  let ?cfgB = "(request (Some ''foo''))\<lparr>cfg_project := Some given_project\<rparr>"
  let ?aA = "\<lparr>args_project = Some None, args_cli_config = Some []\<rparr>"
  let ?aB = "\<lparr>args_project = Some (Some ''foo''), args_cli_config = Some []\<rparr>"
  let ?foo = "\<lparr>p_name = ''foo'', p_path = Some ''foo'', p_resolved = True\<rparr>"
  obtain e0 tr0 where res: "resolution local_world ?cfgA = (Inr e0, tr0)"
    and p0: "project e0 = Some given_project"
    using local_idle_resolution [of ?cfgA ?aA given_project] by (simp add: request_def)
  from Env_init_succeeds [OF res p0, of "''given''" None "''spec''" ?aA "[]"] obtain e tr where
    i: "Env_init local_world ?cfgA = (Inr e, tr)"
    by (auto simp add: request_def given_project_def)
  have A: "filter is_lookup (snd (Env_init local_world ?cfgA)) = []
      \<and> map_sum id project (fst (Env_init local_world ?cfgA)) = Inr (Some given_project)"
    using supplied_project_lookup [where cfg = ?cfgA and w = local_world and p = given_project
        and a = ?aA and n = None and name = "[]" and msg = "[]", OF _ refl refl refl refl refl refl refl] i
    by (simp add: request_def)
  obtain e0' tr0' where res': "resolution demo_world ?cfgB = (Inr e0', tr0')"
    and p0': "project e0' = Some ?foo"
    using demo_supplied_resolution [of given_project] by simp
  from Env_init_succeeds [OF res' p0', of "''foo''" None "''spec''" ?aB "[]"] obtain e' tr' where
    i': "Env_init demo_world ?cfgB = (Inr e', tr')"
    by (auto simp add: request_def)
  have B: "filter is_lookup (snd (Env_init demo_world ?cfgB))
       = [FindProject ''foo'' [],
          Download \<lparr>p_name = ''foo'', p_path = None, p_resolved = False\<rparr> ''main'' ''.'',
          FindProject ''foo'' [''/work'']]
      \<and> map_sum id project (fst (Env_init demo_world ?cfgB)) = Inr (Some ?foo)
      \<and> DefaultProject \<notin> set (snd (Env_init demo_world ?cfgB))"
    using supplied_project_lookup [where cfg = ?cfgB and w = demo_world and p = given_project
        and a = ?aB and name = "''foo''" and n = "Some ''foo''" and msg = "[]",
        OF _ refl refl refl refl refl refl refl] i'
    by (simp add: demo_supplied_setup project_bare_name_def project_hints_def
        demo_world_fields demo_paths request_fields)
  from A B show ?thesis by simp
qed

end
